theory Spec2Isabelle
  imports Complex_Main
begin

section \<open>Exceptions (app/core/exceptions.py)\<close>

text \<open>
  Every exception the services can raise is a value.  \<open>HTTPException\<close> carries the status
  code and the detail string built by \<open>raise_not_found\<close> (404) and \<open>raise_duplicate\<close>
  (409).  \<open>ValidationError\<close> is pydantic's, \<open>IntegrityError\<close> is sqlite3's, \<open>TypeError\<close> and
  \<open>OverflowError\<close> are Python's own.
\<close>

datatype error =
    HTTPException nat string
  | ValidationError
  | IntegrityError
  | TypeError
  | OverflowError

definition NotFoundException_message :: "string \<Rightarrow> string \<Rightarrow> string" where
  "NotFoundException_message resource identifier =
     (resource @ '' not found'') @ (if identifier \<noteq> [] then '': '' @ identifier else [])"

definition DuplicateException_message :: "string \<Rightarrow> string \<Rightarrow> string" where
  "DuplicateException_message resource field =
     (resource @ '' already exists'') @ (if field \<noteq> [] then '' with this '' @ field else [])"

definition raise_not_found :: "string \<Rightarrow> string \<Rightarrow> error" where
  "raise_not_found resource identifier =
     HTTPException 404 (NotFoundException_message resource identifier)"

definition raise_duplicate :: "string \<Rightarrow> string \<Rightarrow> error" where
  "raise_duplicate resource field =
     HTTPException 409 (DuplicateException_message resource field)"

text \<open>The taxonomy of the specification: NotFound is status 404, Duplicate is status 409.\<close>

fun is_NotFound :: "error \<Rightarrow> bool" where
  "is_NotFound (HTTPException code detail) = (code = 404)"
| "is_NotFound ValidationError = False"
| "is_NotFound IntegrityError = False"
| "is_NotFound TypeError = False"
| "is_NotFound OverflowError = False"

fun is_Duplicate :: "error \<Rightarrow> bool" where
  "is_Duplicate (HTTPException code detail) = (code = 409)"
| "is_Duplicate ValidationError = False"
| "is_Duplicate IntegrityError = False"
| "is_Duplicate TypeError = False"
| "is_Duplicate OverflowError = False"


section \<open>Time\<close>

text \<open>
  A time is a number of seconds, fractions included.  \<open>datetime.utcnow()\<close> reads the clock
  to the microsecond and a \<open>datetime\<close> keeps that.  A BSON date, which is what the document
  store keeps of a \<open>datetime\<close>, counts whole milliseconds: the rest is cut off.
  \<open>CURRENT_TIMESTAMP\<close> of SQLite is the clock in whole seconds.
\<close>

definition bson_date :: "rat \<Rightarrow> rat" where
  "bson_date t = of_int \<lfloor>t * 1000\<rfloor> / 1000"

definition CURRENT_TIMESTAMP :: "rat \<Rightarrow> rat" where
  "CURRENT_TIMESTAMP t = of_int \<lfloor>t\<rfloor>"


section \<open>Schemas (app/schemas)\<close>

text \<open>
  Python values that reach a pydantic \<open>str\<close> field.  The schemas are pydantic 2 models
  (\<open>field_validator\<close>, \<open>model_dump\<close>) whose \<open>Config\<close> sets \<open>from_attributes\<close> only, so a
  \<open>str\<close> field takes a \<open>str\<close> and refuses an \<open>int\<close> or \<open>None\<close>: numbers are not coerced to
  strings unless \<open>coerce_numbers_to_str\<close> is set.
\<close>

datatype pyval = PStr string | PInt int | PNone

fun pydantic_str :: "pyval \<Rightarrow> error + string" where
  "pydantic_str (PStr s) = Inr s"
| "pydantic_str (PInt i) = Inl ValidationError"
| "pydantic_str PNone = Inl ValidationError"

fun pyval_of_option :: "string option \<Rightarrow> pyval" where
  "pyval_of_option None = PNone"
| "pyval_of_option (Some s) = PStr s"

record EmployeeCreate =
  ec_id :: string
  ec_name :: string
  ec_email :: string
  ec_department :: string

text \<open>
  \<open>EmployeeUpdate\<close>: each field is unset (\<open>None\<close>), set to \<open>None\<close> (\<open>Some None\<close>) or set
  to a string.  \<open>model_dump(exclude_unset=True)\<close> keeps exactly the fields that are set, so
  the record is also the dictionary \<open>update_data\<close>.
\<close>

record EmployeeUpdate =
  eu_name :: "string option option"
  eu_email :: "string option option"
  eu_department :: "string option option"

definition update_data_nonempty :: "EmployeeUpdate \<Rightarrow> bool" where
  "update_data_nonempty u =
     (eu_name u \<noteq> None \<or> eu_email u \<noteq> None \<or> eu_department u \<noteq> None)"

record EmployeeResponse =
  resp_id :: string
  resp_name :: string
  resp_email :: string
  resp_department :: string
  resp_created_at :: rat

definition EmployeeResponse_init ::
  "pyval \<Rightarrow> pyval \<Rightarrow> pyval \<Rightarrow> pyval \<Rightarrow> rat \<Rightarrow> error + EmployeeResponse" where
  "EmployeeResponse_init i n e d c =
     (case pydantic_str i of Inl err \<Rightarrow> Inl err | Inr i' \<Rightarrow>
       (case pydantic_str n of Inl err \<Rightarrow> Inl err | Inr n' \<Rightarrow>
         (case pydantic_str e of Inl err \<Rightarrow> Inl err | Inr e' \<Rightarrow>
           (case pydantic_str d of Inl err \<Rightarrow> Inl err | Inr d' \<Rightarrow>
              Inr \<lparr>resp_id = i', resp_name = n', resp_email = e', resp_department = d',
                   resp_created_at = c\<rparr>))))"

record EmployeeAttendanceSummary =
  eas_employee_id :: string
  eas_name :: string
  eas_total_present :: nat
  eas_total_absent :: nat

record AttendanceCreate =
  ac_employee_id :: string
  ac_date :: string
  ac_status :: string

record AttendanceUpdate =
  au_status :: string

record AttendanceResponse =
  aresp_id :: string
  aresp_employee_id :: string
  aresp_date :: string
  aresp_status :: string

definition AttendanceResponse_init ::
  "pyval \<Rightarrow> pyval \<Rightarrow> pyval \<Rightarrow> pyval \<Rightarrow> error + AttendanceResponse" where
  "AttendanceResponse_init i e d s =
     (case pydantic_str i of Inl err \<Rightarrow> Inl err | Inr i' \<Rightarrow>
       (case pydantic_str e of Inl err \<Rightarrow> Inl err | Inr e' \<Rightarrow>
         (case pydantic_str d of Inl err \<Rightarrow> Inl err | Inr d' \<Rightarrow>
           (case pydantic_str s of Inl err \<Rightarrow> Inl err | Inr s' \<Rightarrow>
              Inr \<lparr>aresp_id = i', aresp_employee_id = e', aresp_date = d',
                   aresp_status = s'\<rparr>))))"


section \<open>The relational store (app/db/init_db.py, app/db/database.py)\<close>

text \<open>
  The two tables of \<open>init_tables_sqlite\<close>.  \<open>created_at\<close> is the reading of the database
  clock (\<open>CURRENT_TIMESTAMP\<close>), in whole seconds.  \<open>t_attendance_seq\<close> is the row of
  \<open>sqlite_sequence\<close> that \<open>AUTOINCREMENT\<close> keeps for the attendance table.
\<close>

record employee_row =
  er_id :: string
  er_name :: string
  er_email :: string
  er_department :: string
  er_created_at :: rat

record attendance_row =
  ar_id :: int
  ar_employee_id :: string
  ar_date :: string
  ar_status :: string

record sqlite_db =
  t_employees :: "employee_row list"
  t_attendance :: "attendance_row list"
  t_attendance_seq :: int

text \<open>
  A connection as \<open>Database.get_connection\<close> opens it: \<open>sqlite3.connect\<close> followed by the
  row factory, and no \<open>PRAGMA\<close>.  SQLite enforces foreign keys per connection and only
  after \<open>PRAGMA foreign_keys = ON\<close>; a fresh connection has it off.
\<close>

record connection =
  foreign_keys :: bool

definition sqlite3_connect :: connection where
  "sqlite3_connect = \<lparr>foreign_keys = False\<rparr>"

definition get_connection :: connection where
  "get_connection = sqlite3_connect"

subsection \<open>The SQL statements the services execute\<close>

text \<open>\<open>SELECT * FROM employees WHERE id = ?\<close>, \<open>fetchone\<close>.\<close>

definition select_employee_by_id :: "sqlite_db \<Rightarrow> string \<Rightarrow> employee_row option" where
  "select_employee_by_id q i = find (\<lambda>r. er_id r = i) (t_employees q)"

text \<open>\<open>SELECT * FROM employees WHERE email = ?\<close>, \<open>fetchone\<close>; a \<open>NULL\<close> parameter equals
  nothing.\<close>

definition select_employee_by_email :: "sqlite_db \<Rightarrow> string option \<Rightarrow> employee_row option" where
  "select_employee_by_email q e =
     (case e of None \<Rightarrow> None | Some e' \<Rightarrow> find (\<lambda>r. er_email r = e') (t_employees q))"

text \<open>\<open>INSERT INTO employees (id, name, email, department)\<close>: the primary key and the
  \<open>UNIQUE\<close> email are checked, \<open>created_at\<close> takes its default, \<open>CURRENT_TIMESTAMP\<close>, when
  the clock reads \<open>now\<close>.\<close>

definition insert_employee ::
  "sqlite_db \<Rightarrow> string \<Rightarrow> string \<Rightarrow> string \<Rightarrow> string \<Rightarrow> rat \<Rightarrow> error + sqlite_db" where
  "insert_employee q i n e d now =
     (if i \<in> set (map er_id (t_employees q)) \<or> e \<in> set (map er_email (t_employees q))
      then Inl IntegrityError
      else Inr (q\<lparr>t_employees := t_employees q @
                  [\<lparr>er_id = i, er_name = n, er_email = e, er_department = d,
                    er_created_at = CURRENT_TIMESTAMP now\<rparr>]\<rparr>))"

text \<open>\<open>UPDATE employees SET k = ?, ... WHERE id = ?\<close> with the keys and values of
  \<open>update_data\<close>.  On a row that is updated a \<open>None\<close> value violates \<open>NOT NULL\<close>.  The
  table satisfied \<open>UNIQUE\<close> on the email before the statement, and the statement violates
  it when the emails are no longer distinct after it.  A statement that fails changes
  nothing.\<close>

definition set_row :: "EmployeeUpdate \<Rightarrow> employee_row \<Rightarrow> employee_row" where
  "set_row u r =
     r\<lparr>er_name := (case eu_name u of Some (Some v) \<Rightarrow> v | _ \<Rightarrow> er_name r),
       er_email := (case eu_email u of Some (Some v) \<Rightarrow> v | _ \<Rightarrow> er_email r),
       er_department := (case eu_department u of Some (Some v) \<Rightarrow> v | _ \<Rightarrow> er_department r)\<rparr>"

definition update_employees :: "sqlite_db \<Rightarrow> EmployeeUpdate \<Rightarrow> string \<Rightarrow> error + sqlite_db" where
  "update_employees q u i =
     (if i \<in> set (map er_id (t_employees q)) \<and>
         (eu_name u = Some None \<or> eu_email u = Some None \<or> eu_department u = Some None)
      then Inl IntegrityError
      else let rows = map (\<lambda>r. if er_id r = i then set_row u r else r) (t_employees q)
           in if distinct (map er_email (t_employees q)) \<and> \<not> distinct (map er_email rows)
              then Inl IntegrityError
              else Inr (q\<lparr>t_employees := rows\<rparr>))"

text \<open>\<open>DELETE FROM employees WHERE id = ?\<close>: the row count and the new tables.  The
  \<open>ON DELETE CASCADE\<close> of the attendance table acts only on a connection that enforces
  foreign keys.\<close>

definition delete_from_employees :: "connection \<Rightarrow> sqlite_db \<Rightarrow> string \<Rightarrow> nat \<times> sqlite_db" where
  "delete_from_employees conn q i =
     (let rowcount = length (filter (\<lambda>r. er_id r = i) (t_employees q))
      in (rowcount,
          q\<lparr>t_employees := filter (\<lambda>r. er_id r \<noteq> i) (t_employees q),
            t_attendance := (if foreign_keys conn \<and> 0 < rowcount
                           then filter (\<lambda>a. ar_employee_id a \<noteq> i) (t_attendance q)
                           else t_attendance q)\<rparr>))"

text \<open>\<open>SELECT * FROM employees ORDER BY created_at DESC\<close>: the latest first, and rows with
  equal \<open>created_at\<close> in the order of the table.\<close>

definition select_employees_ordered :: "sqlite_db \<Rightarrow> employee_row list" where
  "select_employees_ordered q = sort_key (\<lambda>r. - er_created_at r) (t_employees q)"

text \<open>\<open>SELECT id FROM attendance WHERE employee_id = ? AND date = ?\<close>, \<open>fetchone\<close>.\<close>

definition select_attendance_by_key ::
  "sqlite_db \<Rightarrow> string \<Rightarrow> string \<Rightarrow> attendance_row option" where
  "select_attendance_by_key q e d =
     find (\<lambda>a. ar_employee_id a = e \<and> ar_date a = d) (t_attendance q)"

text \<open>\<open>SELECT * FROM attendance WHERE id = ?\<close>, \<open>fetchone\<close>.\<close>

definition select_attendance_by_id :: "sqlite_db \<Rightarrow> int \<Rightarrow> attendance_row option" where
  "select_attendance_by_id q i = find (\<lambda>a. ar_id a = i) (t_attendance q)"

text \<open>\<open>INSERT INTO attendance (employee_id, date, status)\<close>: \<open>AUTOINCREMENT\<close> assigns one
  more than the largest id ever used, \<open>UNIQUE(employee_id, date)\<close> is checked, and so is the
  foreign key where the connection enforces it.  The result is \<open>lastrowid\<close> and the new
  tables.\<close>

definition next_rowid :: "sqlite_db \<Rightarrow> int" where
  "next_rowid q = fold max (map ar_id (t_attendance q)) (t_attendance_seq q) + 1"

definition insert_attendance ::
  "connection \<Rightarrow> sqlite_db \<Rightarrow> string \<Rightarrow> string \<Rightarrow> string \<Rightarrow> error + (int \<times> sqlite_db)" where
  "insert_attendance conn q e d s =
     (if (e, d) \<in> set (map (\<lambda>a. (ar_employee_id a, ar_date a)) (t_attendance q))
      then Inl IntegrityError
      else if foreign_keys conn \<and> e \<notin> set (map er_id (t_employees q))
      then Inl IntegrityError
      else let new_id = next_rowid q
           in Inr (new_id,
                q\<lparr>t_attendance := t_attendance q @
                     [\<lparr>ar_id = new_id, ar_employee_id = e, ar_date = d, ar_status = s\<rparr>],
                  t_attendance_seq := new_id\<rparr>))"

text \<open>sqlite3 binds a Python \<open>int\<close> as a 64-bit integer and raises \<open>OverflowError\<close> on one
  that does not fit.\<close>

definition fits_int64 :: "int \<Rightarrow> bool" where
  "fits_int64 i = (- (2 ^ 63) \<le> i \<and> i < 2 ^ 63)"

text \<open>\<open>UPDATE attendance SET status = ? WHERE id = ?\<close>: the row count and the new table.\<close>

definition update_attendance_status :: "sqlite_db \<Rightarrow> string \<Rightarrow> int \<Rightarrow> nat \<times> sqlite_db" where
  "update_attendance_status q s i =
     (length (filter (\<lambda>a. ar_id a = i) (t_attendance q)),
      q\<lparr>t_attendance := map (\<lambda>a. if ar_id a = i then a\<lparr>ar_status := s\<rparr> else a) (t_attendance q)\<rparr>)"

text \<open>\<open>DELETE FROM attendance WHERE id = ?\<close>.\<close>

definition delete_from_attendance :: "sqlite_db \<Rightarrow> int \<Rightarrow> nat \<times> sqlite_db" where
  "delete_from_attendance q i =
     (length (filter (\<lambda>a. ar_id a = i) (t_attendance q)),
      q\<lparr>t_attendance := filter (\<lambda>a. ar_id a \<noteq> i) (t_attendance q)\<rparr>)"

text \<open>\<open>SELECT COUNT(*) FROM attendance WHERE employee_id = ? AND status = ...\<close>.\<close>

definition count_attendance :: "sqlite_db \<Rightarrow> string \<Rightarrow> string \<Rightarrow> nat" where
  "count_attendance q e s =
     length (filter (\<lambda>a. ar_employee_id a = e \<and> ar_status a = s) (t_attendance q))"


section \<open>The document store (app/db/mongodb.py)\<close>

text \<open>
  An \<open>ObjectId\<close> is twelve bytes, kept here as the number they spell.  \<open>str\<close> prints it as
  24 lower-case hexadecimal digits; \<open>ObjectId(s)\<close> reads a string of 24 hexadecimal digits
  and raises on any other string.
\<close>

definition hex_digit :: "nat \<Rightarrow> char" where
  "hex_digit n = ''0123456789abcdef'' ! (n mod 16)"

fun hex_digits :: "nat \<Rightarrow> nat \<Rightarrow> string" where
  "hex_digits 0 n = []"
| "hex_digits (Suc k) n = hex_digits k (n div 16) @ [hex_digit n]"

definition str_ObjectId :: "nat \<Rightarrow> string" where
  "str_ObjectId n = hex_digits 24 n"

definition hex_value :: "char \<Rightarrow> nat option" where
  "hex_value c =
     map_of (zip ''0123456789abcdefABCDEF''
                 [0, 1, 2, 3, 4, 5, 6, 7, 8, 9, 10, 11, 12, 13, 14, 15, 10, 11, 12, 13, 14, 15]) c"

fun fromhex :: "nat \<Rightarrow> string \<Rightarrow> nat option" where
  "fromhex acc [] = Some acc"
| "fromhex acc (c # cs) =
     (case hex_value c of None \<Rightarrow> None | Some v \<Rightarrow> fromhex (16 * acc + v) cs)"

definition ObjectId :: "string \<Rightarrow> nat option" where
  "ObjectId s = (if length s = 24 then fromhex 0 s else None)"

text \<open>Python's \<open>str\<close> of an \<open>int\<close>.\<close>

fun str_nat :: "nat \<Rightarrow> string" where
  "str_nat n =
     (if n < 10 then [''0123456789'' ! n]
      else str_nat (n div 10) @ [''0123456789'' ! (n mod 10)])"

definition str_int :: "int \<Rightarrow> string" where
  "str_int i = (if i < 0 then CHR ''-'' # str_nat (nat (- i)) else str_nat (nat i))"

text \<open>
  The documents the services write.  An employee document is the \<open>model_dump\<close> of an
  \<open>EmployeeCreate\<close> with \<open>created_at\<close>, and \<open>$set\<close> later writes \<open>name\<close>, \<open>email\<close> and
  \<open>department\<close> only, possibly with \<open>None\<close>.  An attendance document has \<open>employee_id\<close>,
  \<open>date\<close>, \<open>status\<close> and \<open>created_at\<close>, and no field \<open>id\<close>: \<open>create_attendance\<close> sets
  \<open>document["id"]\<close> on its own dictionary after the insert.  The driver adds \<open>_id\<close>.
\<close>

record employee_doc =
  ed_oid :: nat
  ed_id :: string
  ed_name :: "string option"
  ed_email :: "string option"
  ed_department :: "string option"
  ed_created_at :: rat

record attendance_doc =
  ad_oid :: nat
  ad_employee_id :: string
  ad_date :: string
  ad_status :: string
  ad_created_at :: rat

text \<open>A collection lists its documents in natural order, which is insertion order here;
  \<open>m_next_oid\<close> stands for the driver's supply of fresh \<open>ObjectId\<close>s.\<close>

record mongo_db =
  m_employees :: "employee_doc list"
  m_attendance :: "attendance_doc list"
  m_next_oid :: nat

text \<open>The verbs of the \<open>MongoDB\<close> class, with a filter document as a predicate.\<close>

definition find_one :: "('d \<Rightarrow> bool) \<Rightarrow> 'd list \<Rightarrow> 'd option" where
  "find_one query coll = find query coll"

text \<open>\<open>collection.find(query, skip=skip, limit=limit)\<close> has no sort: the cursor follows the
  natural order.  A limit of 0 is no limit.\<close>

definition find_many :: "('d \<Rightarrow> bool) \<Rightarrow> nat \<Rightarrow> nat \<Rightarrow> 'd list \<Rightarrow> 'd list" where
  "find_many query skip limit coll =
     (let found = drop skip (filter query coll)
      in if limit = 0 then found else take limit found)"

fun update_first :: "('d \<Rightarrow> bool) \<Rightarrow> ('d \<Rightarrow> 'd) \<Rightarrow> 'd list \<Rightarrow> 'd list" where
  "update_first query f [] = []"
| "update_first query f (d # ds) =
     (if query d then f d # ds else d # update_first query f ds)"

definition update_one :: "('d \<Rightarrow> bool) \<Rightarrow> ('d \<Rightarrow> 'd) \<Rightarrow> 'd list \<Rightarrow> 'd list" where
  "update_one query f coll = update_first query f coll"

fun delete_first :: "('d \<Rightarrow> bool) \<Rightarrow> 'd list \<Rightarrow> 'd list" where
  "delete_first query [] = []"
| "delete_first query (d # ds) = (if query d then ds else d # delete_first query ds)"

text \<open>\<open>delete_one\<close> returns \<open>deleted_count > 0\<close>.\<close>

definition delete_one :: "('d \<Rightarrow> bool) \<Rightarrow> 'd list \<Rightarrow> bool \<times> 'd list" where
  "delete_one query coll = (find query coll \<noteq> None, delete_first query coll)"

definition count_documents :: "('d \<Rightarrow> bool) \<Rightarrow> 'd list \<Rightarrow> nat" where
  "count_documents query coll = length (filter query coll)"

text \<open>A filter on \<open>_id\<close>: an \<open>ObjectId\<close> equals the stored one or not, a string never does.\<close>

datatype id_query = QObjectId nat | QStr string

fun oid_matches :: "id_query \<Rightarrow> nat \<Rightarrow> bool" where
  "oid_matches (QObjectId n) oid = (n = oid)"
| "oid_matches (QStr s) oid = False"


section \<open>The database handle (app/db/database.py)\<close>

datatype database = Sqlite sqlite_db | Mongodb mongo_db

fun is_mongodb :: "database \<Rightarrow> bool" where
  "is_mongodb (Mongodb m) = True"
| "is_mongodb (Sqlite q) = False"

text \<open>The store after \<open>init_database\<close>: empty tables, or collections not yet created.\<close>

definition init_sqlite :: database where
  "init_sqlite = Sqlite \<lparr>t_employees = [], t_attendance = [], t_attendance_seq = 0\<rparr>"

definition init_mongodb :: database where
  "init_mongodb = Mongodb \<lparr>m_employees = [], m_attendance = [], m_next_oid = 0\<rparr>"


section \<open>Employee service (app/services/employee_service.py)\<close>

text \<open>
  The dictionaries that \<open>_get_by_id\<close> and \<open>_get_by_email\<close> return: \<open>dict(row)\<close> for a row,
  or the document after \<open>_convert_objectid_to_str\<close>, whose \<open>_id\<close> is then a string.
\<close>

record employee_dict =
  d_oid :: "string option"
  d_id :: string
  d_name :: "string option"
  d_email :: "string option"
  d_department :: "string option"
  d_created_at :: rat

definition dict_of_row :: "employee_row \<Rightarrow> employee_dict" where
  "dict_of_row r =
     \<lparr>d_oid = None, d_id = er_id r, d_name = Some (er_name r), d_email = Some (er_email r),
      d_department = Some (er_department r), d_created_at = er_created_at r\<rparr>"

definition convert_objectid_to_str :: "employee_doc \<Rightarrow> employee_dict" where
  "convert_objectid_to_str d =
     \<lparr>d_oid = Some (str_ObjectId (ed_oid d)), d_id = ed_id d, d_name = ed_name d,
      d_email = ed_email d, d_department = ed_department d, d_created_at = ed_created_at d\<rparr>"

definition get_by_id :: "database \<Rightarrow> string \<Rightarrow> employee_dict option" where
  "get_by_id db employee_id =
     (case db of
        Mongodb m \<Rightarrow>
          map_option convert_objectid_to_str
            (find_one (\<lambda>d. ed_id d = employee_id) (m_employees m))
      | Sqlite q \<Rightarrow> map_option dict_of_row (select_employee_by_id q employee_id))"

definition get_by_email :: "database \<Rightarrow> string option \<Rightarrow> employee_dict option" where
  "get_by_email db email =
     (case db of
        Mongodb m \<Rightarrow>
          map_option convert_objectid_to_str
            (find_one (\<lambda>d. ed_email d = email) (m_employees m))
      | Sqlite q \<Rightarrow> map_option dict_of_row (select_employee_by_email q email))"

text \<open>\<open>_doc_to_response\<close>: a \<open>None\<close> name, email or department is replaced by its default.
  Every document has \<open>id\<close> and \<open>created_at\<close>, so the branches for their absence do not
  arise.\<close>

definition doc_to_response :: "employee_dict \<Rightarrow> error + EmployeeResponse" where
  "doc_to_response doc =
     (let name = (case d_name doc of None \<Rightarrow> ''Unknown'' | Some n \<Rightarrow> n);
          email = (case d_email doc of None \<Rightarrow> ''unknown@example.com'' | Some e \<Rightarrow> e);
          department = (case d_department doc of None \<Rightarrow> ''Unassigned'' | Some d \<Rightarrow> d)
      in EmployeeResponse_init (PStr (d_id doc)) (PStr name) (PStr email) (PStr department)
           (d_created_at doc))"

text \<open>\<open>EmployeeResponse(**row)\<close> on a dictionary; the key \<open>_id\<close>, where there is one, is
  not a field of the response and is ignored.\<close>

definition response_of_dict :: "employee_dict \<Rightarrow> error + EmployeeResponse" where
  "response_of_dict row =
     EmployeeResponse_init (PStr (d_id row)) (pyval_of_option (d_name row))
       (pyval_of_option (d_email row)) (pyval_of_option (d_department row)) (d_created_at row)"

text \<open>
  \<open>create_employee\<close>, when the clock reads \<open>now\<close>.  In the document store the dictionary
  \<open>document\<close> holds \<open>datetime.utcnow()\<close>; \<open>insert_one\<close> appends it under a fresh \<open>_id\<close>,
  its \<open>created_at\<close> as a BSON date, and the response is built from the dictionary, not
  from what the store holds.  In the relational store the row is inserted, committed and
  read back by its id.
\<close>

definition create_employee ::
  "database \<Rightarrow> rat \<Rightarrow> EmployeeCreate \<Rightarrow> (error + EmployeeResponse) \<times> database" where
  "create_employee db now employee =
     (if get_by_id db (ec_id employee) \<noteq> None
      then (Inl (raise_duplicate ''Employee'' ''ID''), db)
      else if get_by_email db (Some (ec_email employee)) \<noteq> None
      then (Inl (raise_duplicate ''Employee'' ''email''), db)
      else case db of
        Mongodb m \<Rightarrow>
          (let document = \<lparr>ed_oid = m_next_oid m, ed_id = ec_id employee,
                            ed_name = Some (ec_name employee),
                            ed_email = Some (ec_email employee),
                            ed_department = Some (ec_department employee),
                            ed_created_at = now\<rparr>;
               m' = m\<lparr>m_employees :=
                        m_employees m @ [document\<lparr>ed_created_at := bson_date now\<rparr>],
                      m_next_oid := m_next_oid m + 1\<rparr>
           in (doc_to_response (convert_objectid_to_str document), Mongodb m'))
      | Sqlite q \<Rightarrow>
          (case insert_employee q (ec_id employee) (ec_name employee) (ec_email employee)
                  (ec_department employee) now of
             Inl err \<Rightarrow> (Inl err, db)
           | Inr q' \<Rightarrow>
               (case select_employee_by_id q' (ec_id employee) of
                  None \<Rightarrow> (Inl TypeError, Sqlite q')
                | Some row \<Rightarrow> (response_of_dict (dict_of_row row), Sqlite q'))))"

text \<open>A list comprehension of response constructors raises at the first that raises.\<close>

fun collect :: "(error + 'a) list \<Rightarrow> error + 'a list" where
  "collect [] = Inr []"
| "collect (x # xs) =
     (case x of Inl err \<Rightarrow> Inl err
      | Inr v \<Rightarrow> (case collect xs of Inl err \<Rightarrow> Inl err | Inr vs \<Rightarrow> Inr (v # vs)))"

definition get_employees :: "database \<Rightarrow> error + EmployeeResponse list" where
  "get_employees db =
     (case db of
        Mongodb m \<Rightarrow>
          collect (map (\<lambda>doc. doc_to_response (convert_objectid_to_str doc))
                     (find_many (\<lambda>d. True) 0 1000 (m_employees m)))
      | Sqlite q \<Rightarrow>
          collect (map (\<lambda>row. response_of_dict (dict_of_row row))
                     (select_employees_ordered q)))"

definition get_employee :: "database \<Rightarrow> string \<Rightarrow> error + EmployeeResponse" where
  "get_employee db employee_id =
     (case get_by_id db employee_id of
        None \<Rightarrow> Inl (raise_not_found ''Employee'' employee_id)
      | Some row \<Rightarrow> if is_mongodb db then doc_to_response row else response_of_dict row)"

text \<open>\<open>$set\<close> with \<open>update_data\<close>: a key that is present is written, also with \<open>None\<close>.\<close>

definition set_doc :: "EmployeeUpdate \<Rightarrow> employee_doc \<Rightarrow> employee_doc" where
  "set_doc u d =
     d\<lparr>ed_name := (case eu_name u of None \<Rightarrow> ed_name d | Some v \<Rightarrow> v),
       ed_email := (case eu_email u of None \<Rightarrow> ed_email d | Some v \<Rightarrow> v),
       ed_department := (case eu_department u of None \<Rightarrow> ed_department d | Some v \<Rightarrow> v)\<rparr>"

text \<open>The check of \<open>update_employee\<close> on the email: \<open>existing and existing.get("id") !=
  employee_id\<close>, made only when \<open>email\<close> is a key of \<open>update_data\<close>.\<close>

definition email_taken :: "database \<Rightarrow> string \<Rightarrow> EmployeeUpdate \<Rightarrow> bool" where
  "email_taken db employee_id u =
     (case eu_email u of
        None \<Rightarrow> False
      | Some email \<Rightarrow>
          (case get_by_email db email of
             None \<Rightarrow> False
           | Some existing \<Rightarrow> d_id existing \<noteq> employee_id))"

definition update_employee ::
  "database \<Rightarrow> string \<Rightarrow> EmployeeUpdate \<Rightarrow> (error + EmployeeResponse) \<times> database" where
  "update_employee db employee_id employee_update =
     (if get_by_id db employee_id = None
      then (Inl (raise_not_found ''Employee'' employee_id), db)
      else if email_taken db employee_id employee_update
      then (Inl (raise_duplicate ''Employee'' ''email''), db)
      else case db of
        Mongodb m \<Rightarrow>
          (let m' = (if update_data_nonempty employee_update
                     then m\<lparr>m_employees :=
                            update_one (\<lambda>d. ed_id d = employee_id) (set_doc employee_update)
                              (m_employees m)\<rparr>
                     else m)
           in case get_by_id (Mongodb m') employee_id of
                None \<Rightarrow> (Inl TypeError, Mongodb m')
              | Some updated \<Rightarrow> (doc_to_response updated, Mongodb m'))
      | Sqlite q \<Rightarrow>
          (case (if update_data_nonempty employee_update
                 then update_employees q employee_update employee_id
                 else Inr q) of
             Inl err \<Rightarrow> (Inl err, db)
           | Inr q' \<Rightarrow>
               (case get_by_id (Sqlite q') employee_id of
                  None \<Rightarrow> (Inl TypeError, Sqlite q')
                | Some updated \<Rightarrow> (response_of_dict updated, Sqlite q'))))"

definition delete_employee :: "database \<Rightarrow> string \<Rightarrow> (error + unit) \<times> database" where
  "delete_employee db employee_id =
     (case db of
        Mongodb m \<Rightarrow>
          (case delete_one (\<lambda>d. ed_id d = employee_id) (m_employees m) of
             (result, coll) \<Rightarrow>
               if \<not> result then (Inl (raise_not_found ''Employee'' employee_id), db)
               else (Inr (), Mongodb (m\<lparr>m_employees := coll\<rparr>)))
      | Sqlite q \<Rightarrow>
          (case delete_from_employees get_connection q employee_id of
             (rowcount, q') \<Rightarrow>
               if rowcount = 0 then (Inl (raise_not_found ''Employee'' employee_id), db)
               else (Inr (), Sqlite q')))"

definition employee_exists :: "database \<Rightarrow> string \<Rightarrow> bool" where
  "employee_exists db employee_id = (get_by_id db employee_id \<noteq> None)"


section \<open>Attendance service (app/services/attendance_service.py)\<close>

text \<open>
  \<open>create_attendance\<close>.  In the document store \<open>insert_one\<close> returns \<open>str(inserted_id)\<close>,
  which becomes the \<open>id\<close> of the response.  In the relational store the row is inserted
  and committed, read back by \<open>lastrowid\<close>, and \<open>AttendanceResponse(**dict(row))\<close> is given
  the integer \<open>id\<close> of the row.
\<close>

definition create_attendance ::
  "database \<Rightarrow> rat \<Rightarrow> AttendanceCreate \<Rightarrow> (error + AttendanceResponse) \<times> database" where
  "create_attendance db now attendance =
     (if \<not> employee_exists db (ac_employee_id attendance)
      then (Inl (raise_not_found ''Employee'' (ac_employee_id attendance)), db)
      else case db of
        Mongodb m \<Rightarrow>
          (if find_one (\<lambda>d. ad_employee_id d = ac_employee_id attendance \<and>
                            ad_date d = ac_date attendance) (m_attendance m) \<noteq> None
           then (Inl (raise_duplicate ''Attendance record'' ''date''), db)
           else
             let document = \<lparr>ad_oid = m_next_oid m,
                              ad_employee_id = ac_employee_id attendance,
                              ad_date = ac_date attendance,
                              ad_status = ac_status attendance,
                              ad_created_at = now\<rparr>;
                 inserted_id = str_ObjectId (m_next_oid m);
                 m' = m\<lparr>m_attendance :=
                          m_attendance m @ [document\<lparr>ad_created_at := bson_date now\<rparr>],
                        m_next_oid := m_next_oid m + 1\<rparr>
             in (AttendanceResponse_init (PStr inserted_id) (PStr (ad_employee_id document))
                   (PStr (ad_date document)) (PStr (ad_status document)),
                 Mongodb m'))
      | Sqlite q \<Rightarrow>
          (if select_attendance_by_key q (ac_employee_id attendance) (ac_date attendance) \<noteq> None
           then (Inl (raise_duplicate ''Attendance record'' ''date''), db)
           else
             case insert_attendance get_connection q (ac_employee_id attendance)
                    (ac_date attendance) (ac_status attendance) of
               Inl err \<Rightarrow> (Inl err, db)
             | Inr (new_id, q') \<Rightarrow>
                 (case select_attendance_by_id q' new_id of
                    None \<Rightarrow> (Inl TypeError, Sqlite q')
                  | Some row \<Rightarrow>
                      (AttendanceResponse_init (PInt (ar_id row)) (PStr (ar_employee_id row))
                         (PStr (ar_date row)) (PStr (ar_status row)),
                       Sqlite q'))))"

definition get_employee_attendance_summary ::
  "database \<Rightarrow> string \<Rightarrow> error + EmployeeAttendanceSummary" where
  "get_employee_attendance_summary db employee_id =
     (case get_employee db employee_id of
        Inl err \<Rightarrow> Inl err
      | Inr employee \<Rightarrow>
          (case db of
             Mongodb m \<Rightarrow>
               Inr \<lparr>eas_employee_id = employee_id, eas_name = resp_name employee,
                    eas_total_present =
                      count_documents (\<lambda>d. ad_employee_id d = employee_id \<and>
                                            ad_status d = ''Present'') (m_attendance m),
                    eas_total_absent =
                      count_documents (\<lambda>d. ad_employee_id d = employee_id \<and>
                                            ad_status d = ''Absent'') (m_attendance m)\<rparr>
           | Sqlite q \<Rightarrow>
               Inr \<lparr>eas_employee_id = employee_id, eas_name = resp_name employee,
                    eas_total_present = count_attendance q employee_id ''Present'',
                    eas_total_absent = count_attendance q employee_id ''Absent''\<rparr>))"

text \<open>
  \<open>update_attendance\<close> and \<open>delete_attendance\<close> take the \<open>attendance_id\<close> of the endpoints,
  an \<open>int\<close> (of at most 4300 digits, which is what the endpoint parses, so \<open>str\<close> of it
  does not raise).  The relational branch binds it as a parameter of its first statement.
  The document branch looks the record up by \<open>ObjectId(str(attendance_id))\<close>,
  with \<open>None\<close> when that raises, then by the field \<open>id\<close>, which no attendance document has.
  The document found went through \<open>_convert_objectid_to_str\<close>, so \<open>query_id\<close> holds the
  \<open>_id\<close> as a string.
\<close>

definition update_attendance ::
  "database \<Rightarrow> int \<Rightarrow> AttendanceUpdate \<Rightarrow> (error + AttendanceResponse) \<times> database" where
  "update_attendance db attendance_id attendance_update =
     (case db of
        Mongodb m \<Rightarrow>
          (let by_oid = (case ObjectId (str_int attendance_id) of
                           None \<Rightarrow> None
                         | Some oid \<Rightarrow>
                             find_one (\<lambda>d. oid_matches (QObjectId oid) (ad_oid d))
                               (m_attendance m));
               doc = (case by_oid of
                        None \<Rightarrow> find_one (\<lambda>d. False) (m_attendance m)
                      | Some d \<Rightarrow> Some d)
           in case doc of
                None \<Rightarrow>
                  (Inl (raise_not_found ''Attendance record'' (str_int attendance_id)), db)
              | Some d \<Rightarrow>
                  (let query_id = (\<lambda>d'. oid_matches (QStr (str_ObjectId (ad_oid d))) (ad_oid d'));
                       m' = m\<lparr>m_attendance :=
                                update_one query_id
                                  (\<lambda>d'. d'\<lparr>ad_status := au_status attendance_update\<rparr>)
                                  (m_attendance m)\<rparr>
                   in case find_one query_id (m_attendance m') of
                        None \<Rightarrow> (Inl TypeError, Mongodb m')
                      | Some updated \<Rightarrow>
                          (AttendanceResponse_init (PStr (str_ObjectId (ad_oid updated)))
                             (PStr (ad_employee_id updated)) (PStr (ad_date updated))
                             (PStr (ad_status updated)),
                           Mongodb m')))
      | Sqlite q \<Rightarrow>
          (if \<not> fits_int64 attendance_id then (Inl OverflowError, db)
           else
             case update_attendance_status q (au_status attendance_update) attendance_id of
               (rowcount, q') \<Rightarrow>
                 if rowcount = 0
                 then (Inl (raise_not_found ''Attendance record'' (str_int attendance_id)), db)
                 else
                   (case select_attendance_by_id q' attendance_id of
                      None \<Rightarrow> (Inl TypeError, Sqlite q')
                    | Some row \<Rightarrow>
                        (AttendanceResponse_init (PInt (ar_id row)) (PStr (ar_employee_id row))
                           (PStr (ar_date row)) (PStr (ar_status row)),
                         Sqlite q'))))"

definition delete_attendance :: "database \<Rightarrow> int \<Rightarrow> (error + unit) \<times> database" where
  "delete_attendance db attendance_id =
     (case db of
        Mongodb m \<Rightarrow>
          (let (result, coll) =
                 (case ObjectId (str_int attendance_id) of
                    None \<Rightarrow> (False, m_attendance m)
                  | Some oid \<Rightarrow>
                      delete_one (\<lambda>d. oid_matches (QObjectId oid) (ad_oid d)) (m_attendance m));
               (result', coll') =
                 (if \<not> result then delete_one (\<lambda>d. False) coll else (result, coll))
           in if \<not> result'
              then (Inl (raise_not_found ''Attendance record'' (str_int attendance_id)), db)
              else (Inr (), Mongodb (m\<lparr>m_attendance := coll'\<rparr>)))
      | Sqlite q \<Rightarrow>
          (if \<not> fits_int64 attendance_id then (Inl OverflowError, db)
           else
             case delete_from_attendance q attendance_id of
               (rowcount, q') \<Rightarrow>
                 if rowcount = 0
                 then (Inl (raise_not_found ''Attendance record'' (str_int attendance_id)), db)
                 else (Inr (), Sqlite q')))"


section \<open>Requests and reachable states\<close>

text \<open>
  The mutating operations of the two services, one request at a time.  \<open>execute\<close> runs one
  and keeps the store it leaves; a state is reachable when requests lead to it from the
  store that \<open>init_database\<close> leaves, in either backend.
\<close>

datatype request =
    CreateEmployee rat EmployeeCreate
  | UpdateEmployee string EmployeeUpdate
  | DeleteEmployee string
  | CreateAttendance rat AttendanceCreate
  | UpdateAttendance int AttendanceUpdate
  | DeleteAttendance int

fun execute :: "database \<Rightarrow> request \<Rightarrow> database" where
  "execute db (CreateEmployee now employee) = snd (create_employee db now employee)"
| "execute db (UpdateEmployee employee_id u) = snd (update_employee db employee_id u)"
| "execute db (DeleteEmployee employee_id) = snd (delete_employee db employee_id)"
| "execute db (CreateAttendance now attendance) = snd (create_attendance db now attendance)"
| "execute db (UpdateAttendance attendance_id u) = snd (update_attendance db attendance_id u)"
| "execute db (DeleteAttendance attendance_id) = snd (delete_attendance db attendance_id)"

definition run :: "database \<Rightarrow> request list \<Rightarrow> database" where
  "run db requests = fold (\<lambda>r s. execute s r) requests db"

inductive reachable :: "database \<Rightarrow> bool" where
  reachable_sqlite: "reachable init_sqlite"
| reachable_mongodb: "reachable init_mongodb"
| reachable_execute: "reachable db \<Longrightarrow> reachable (execute db r)"


section \<open>Request validation (app/schemas/attendance.py, the attendance endpoint)\<close>

text \<open>
  The \<open>pattern\<close> of a pydantic field is a regular expression.  The two patterns of
  \<open>AttendanceCreate\<close> are anchored at both ends, so a string passes when the whole of it
  matches.  A character stands for one code point; below 256 the class \<open>\d\<close> holds the
  ten ASCII digits only.
\<close>

datatype regex = Never | Eps | Chr char | Digit | Seq regex regex | Alt regex regex

definition is_digit :: "char \<Rightarrow> bool" where
  "is_digit c = (c \<in> set ''0123456789'')"

fun nullable :: "regex \<Rightarrow> bool" where
  "nullable Never = False"
| "nullable Eps = True"
| "nullable (Chr c) = False"
| "nullable Digit = False"
| "nullable (Seq r s) = (nullable r \<and> nullable s)"
| "nullable (Alt r s) = (nullable r \<or> nullable s)"

fun deriv :: "char \<Rightarrow> regex \<Rightarrow> regex" where
  "deriv a Never = Never"
| "deriv a Eps = Never"
| "deriv a (Chr c) = (if a = c then Eps else Never)"
| "deriv a Digit = (if is_digit a then Eps else Never)"
| "deriv a (Seq r s) =
     (if nullable r then Alt (Seq (deriv a r) s) (deriv a s) else Seq (deriv a r) s)"
| "deriv a (Alt r s) = Alt (deriv a r) (deriv a s)"

fun full_match :: "regex \<Rightarrow> string \<Rightarrow> bool" where
  "full_match r [] = nullable r"
| "full_match r (c # cs) = full_match (deriv c r) cs"

fun literal :: "string \<Rightarrow> regex" where
  "literal [] = Eps"
| "literal (c # cs) = Seq (Chr c) (literal cs)"

fun digits :: "nat \<Rightarrow> regex" where
  "digits 0 = Eps"
| "digits (Suc n) = Seq Digit (digits n)"

text \<open>The strings a regular expression denotes, to reason about \<open>full_match\<close>.\<close>

fun lang :: "regex \<Rightarrow> string set" where
  "lang Never = {}"
| "lang Eps = {[]}"
| "lang (Chr c) = {[c]}"
| "lang Digit = {[c] |c. is_digit c}"
| "lang (Seq r s) = {u @ v |u v. u \<in> lang r \<and> v \<in> lang s}"
| "lang (Alt r s) = lang r \<union> lang s"

text \<open>\<open>^(Present|Absent)$\<close> and \<open>^\d{4}-\d{2}-\d{2}$\<close>.\<close>

definition status_pattern :: regex where
  "status_pattern = Alt (literal ''Present'') (literal ''Absent'')"

definition date_pattern :: regex where
  "date_pattern =
     Seq (digits 4) (Seq (Chr CHR ''-'') (Seq (digits 2) (Seq (Chr CHR ''-'') (digits 2))))"

text \<open>
  \<open>validate_date_format\<close> runs \<open>datetime.strptime(v, "%Y-%m-%d")\<close> on a string that has
  passed the pattern: year, month and day are read from their places, and the call raises
  unless they name a day of the calendar (year 1 or later).
\<close>

definition digit_value :: "char \<Rightarrow> nat" where
  "digit_value c = (case map_of (zip ''0123456789'' [0, 1, 2, 3, 4, 5, 6, 7, 8, 9]) c of
                      None \<Rightarrow> 0 | Some v \<Rightarrow> v)"

definition int_of_digits :: "string \<Rightarrow> nat" where
  "int_of_digits s = fold (\<lambda>c acc. 10 * acc + digit_value c) s 0"

definition is_leap :: "nat \<Rightarrow> bool" where
  "is_leap y = (y mod 4 = 0 \<and> (y mod 100 \<noteq> 0 \<or> y mod 400 = 0))"

definition days_in_month :: "nat \<Rightarrow> nat \<Rightarrow> nat" where
  "days_in_month y m =
     (if m = 2 then (if is_leap y then 29 else 28)
      else if m = 4 \<or> m = 6 \<or> m = 9 \<or> m = 11 then 30 else 31)"

definition strptime_Ymd :: "string \<Rightarrow> bool" where
  "strptime_Ymd v =
     (let y = int_of_digits (take 4 v);
          m = int_of_digits (take 2 (drop 5 v));
          d = int_of_digits (drop 8 v)
      in 1 \<le> y \<and> 1 \<le> m \<and> m \<le> 12 \<and> 1 \<le> d \<and> d \<le> days_in_month y m)"

text \<open>
  The validation of an \<open>AttendanceCreate\<close> body: \<open>employee_id\<close> of 4 to 20 characters,
  \<open>date\<close> by pattern and \<open>validate_date_format\<close>, \<open>status\<close> by pattern.  The class derives
  from \<open>BaseModel\<close>, not from \<open>AttendanceBase\<close>, so the validator \<open>validate_status\<close> of that
  class, which capitalizes, is not part of it.  A body that passes is returned as it is.
\<close>

definition AttendanceCreate_validate :: "AttendanceCreate \<Rightarrow> error + AttendanceCreate" where
  "AttendanceCreate_validate body =
     (if 4 \<le> length (ac_employee_id body) \<and> length (ac_employee_id body) \<le> 20 \<and>
         full_match date_pattern (ac_date body) \<and> strptime_Ymd (ac_date body) \<and>
         full_match status_pattern (ac_status body)
      then Inr body
      else Inl ValidationError)"

text \<open>The endpoint \<open>POST /attendance/\<close>: the body is validated before the service is called.\<close>

definition post_attendance ::
  "database \<Rightarrow> rat \<Rightarrow> AttendanceCreate \<Rightarrow> (error + AttendanceResponse) \<times> database" where
  "post_attendance db now body =
     (case AttendanceCreate_validate body of
        Inl err \<Rightarrow> (Inl err, db)
      | Inr attendance \<Rightarrow> create_attendance db now attendance)"


section \<open>What a store holds\<close>

text \<open>
  Views of the store used to state properties, the same for both backends: the employee
  ids, the email of every employee (\<open>None\<close> for a \<open>None\<close> email), the
  \<open>(employee_id, date)\<close> pair of every attendance record, and the statuses of the
  attendance records of one employee.
\<close>

definition employee_ids :: "database \<Rightarrow> string list" where
  "employee_ids db =
     (case db of
        Mongodb m \<Rightarrow> map ed_id (m_employees m)
      | Sqlite q \<Rightarrow> map er_id (t_employees q))"

definition employee_emails :: "database \<Rightarrow> (string \<times> string option) list" where
  "employee_emails db =
     (case db of
        Mongodb m \<Rightarrow> map (\<lambda>d. (ed_id d, ed_email d)) (m_employees m)
      | Sqlite q \<Rightarrow> map (\<lambda>r. (er_id r, Some (er_email r))) (t_employees q))"

definition attendance_keys :: "database \<Rightarrow> (string \<times> string) list" where
  "attendance_keys db =
     (case db of
        Mongodb m \<Rightarrow> map (\<lambda>d. (ad_employee_id d, ad_date d)) (m_attendance m)
      | Sqlite q \<Rightarrow> map (\<lambda>a. (ar_employee_id a, ar_date a)) (t_attendance q))"

definition attendance_statuses :: "database \<Rightarrow> string \<Rightarrow> string list" where
  "attendance_statuses db employee_id =
     (case db of
        Mongodb m \<Rightarrow>
          map ad_status (filter (\<lambda>d. ad_employee_id d = employee_id) (m_attendance m))
      | Sqlite q \<Rightarrow>
          map ar_status (filter (\<lambda>a. ar_employee_id a = employee_id) (t_attendance q)))"

text \<open>Employee ids are unique, and so are emails.\<close>

definition unique_employees :: "database \<Rightarrow> bool" where
  "unique_employees db =
     (distinct (employee_ids db) \<and> distinct (map snd (employee_emails db)))"

text \<open>Another employee than \<open>employee_id\<close> has the email \<open>email\<close>.\<close>

definition email_of_another :: "database \<Rightarrow> string \<Rightarrow> string option \<Rightarrow> bool" where
  "email_of_another db employee_id email =
     list_ex (\<lambda>(i, e). i \<noteq> employee_id \<and> e = email) (employee_emails db)"

text \<open>A result is a failure of the given kind.\<close>

definition fails_with :: "(error \<Rightarrow> bool) \<Rightarrow> error + 'a \<Rightarrow> bool" where
  "fails_with kind result = (case result of Inl err \<Rightarrow> kind err | Inr v \<Rightarrow> False)"


section \<open>Example requests\<close>

definition employee_E001 :: EmployeeCreate where
  "employee_E001 =
     \<lparr>ec_id = ''E001'', ec_name = ''Ann'', ec_email = ''a@x.com'', ec_department = ''Ops''\<rparr>"

definition employee_E002 :: EmployeeCreate where
  "employee_E002 =
     \<lparr>ec_id = ''E002'', ec_name = ''Bob'', ec_email = ''b@x.com'', ec_department = ''Ops''\<rparr>"

definition attendance_day :: "string \<Rightarrow> string \<Rightarrow> AttendanceCreate" where
  "attendance_day date status =
     \<lparr>ac_employee_id = ''E001'', ac_date = date, ac_status = status\<rparr>"

definition update_email :: "string \<Rightarrow> EmployeeUpdate" where
  "update_email email = \<lparr>eu_name = None, eu_email = Some (Some email), eu_department = None\<rparr>"

definition update_department :: "string \<Rightarrow> EmployeeUpdate" where
  "update_department department =
     \<lparr>eu_name = None, eu_email = None, eu_department = Some (Some department)\<rparr>"

definition two_employees :: "database \<Rightarrow> database" where
  "two_employees db = run db [CreateEmployee 1 employee_E001, CreateEmployee 2 employee_E002]"

text \<open>Employee \<open>E001\<close> with three days present and two days absent.\<close>

definition five_days :: "database \<Rightarrow> database" where
  "five_days db =
     run db
       [CreateEmployee 1 employee_E001,
        CreateAttendance 2 (attendance_day ''2024-01-01'' ''Present''),
        CreateAttendance 3 (attendance_day ''2024-01-02'' ''Absent''),
        CreateAttendance 4 (attendance_day ''2024-01-03'' ''Present''),
        CreateAttendance 5 (attendance_day ''2024-01-04'' ''Absent''),
        CreateAttendance 6 (attendance_day ''2024-01-05'' ''Present'')]"


section \<open>Auxiliary facts\<close>

subsection \<open>Lists\<close>

lemma update_first_map: "(\<And>x. k (g x) = k x) \<Longrightarrow> map k (update_first P g xs) = map k xs"
  by (induction xs) auto

lemma update_first_set: "set (update_first P g xs) \<subseteq> set xs \<union> g ` {x \<in> set xs. P x}"
  by (induction xs) auto

lemma update_first_find_same:
  "(\<And>x. P (g x) = P x) \<Longrightarrow> find P (update_first P g xs) = map_option g (find P xs)"
  by (induction xs) auto

lemma update_first_find_other:
  "(\<And>x. P x \<Longrightarrow> \<not> Q x \<and> \<not> Q (g x)) \<Longrightarrow> find Q (update_first P g xs) = find Q xs"
  by (induction xs) auto

lemma update_first_distinct:
  "distinct (map k xs) \<Longrightarrow>
   (\<And>x y. x \<in> set xs \<Longrightarrow> y \<in> set xs \<Longrightarrow> P x \<Longrightarrow> k y = k (g x) \<Longrightarrow> y = x) \<Longrightarrow>
   distinct (map k (update_first P g xs))"
proof (induction xs)
  case Nil
  then show ?case by simp
next
  case (Cons a xs)
  show ?case
  proof (cases "P a")
    case True
    have "k (g a) \<notin> k ` set xs"
    proof
      assume "k (g a) \<in> k ` set xs"
      then obtain y where y: "y \<in> set xs" "k y = k (g a)" by auto
      with Cons.prems(2)[of a y] True have "y = a" by simp
      with y have "k a \<in> k ` set xs" by blast
      moreover from Cons.prems(1) have "k a \<notin> k ` set xs" by simp
      ultimately show False by contradiction
    qed
    with True Cons.prems(1) show ?thesis by simp
  next
    case False
    have ih: "distinct (map k (update_first P g xs))"
      using Cons.prems by (intro Cons.IH) auto
    have "k a \<notin> k ` set (update_first P g xs)"
    proof
      assume "k a \<in> k ` set (update_first P g xs)"
      then obtain z where z: "z \<in> set (update_first P g xs)" "k a = k z" by auto
      from z(1) update_first_set[of P g xs]
      consider "z \<in> set xs" | x where "x \<in> set xs" "P x" "z = g x" by auto
      then show False
      proof cases
        case 1
        with z Cons.prems(1) show ?thesis by auto
      next
        case 2
        with z Cons.prems(2)[of x a] have "a = x" by simp
        with 2 False show ?thesis by simp
      qed
    qed
    with False ih show ?thesis by simp
  qed
qed

lemma delete_first_set: "set (delete_first P xs) \<subseteq> set xs"
  by (induction xs) auto

lemma delete_first_distinct: "distinct (map k xs) \<Longrightarrow> distinct (map k (delete_first P xs))"
proof (induction xs)
  case (Cons a xs)
  then show ?case using delete_first_set[of P xs] by auto
qed simp

lemma find_by_key_unique:
  "distinct (map k xs) \<Longrightarrow> y \<in> set xs \<Longrightarrow> find (\<lambda>x. k x = k y) xs = Some y"
  by (induction xs) (auto simp: image_iff)

subsection \<open>Lookups\<close>

lemma get_by_id_None_iff: "get_by_id db i = None \<longleftrightarrow> i \<notin> set (employee_ids db)"
  by (cases db)
     (auto simp: get_by_id_def employee_ids_def select_employee_by_id_def find_one_def
        find_None_iff)

lemma get_by_email_Some_None_iff:
  "get_by_email db (Some e) = None \<longleftrightarrow> Some e \<notin> set (map snd (employee_emails db))"
  by (cases db)
     (auto simp: get_by_email_def employee_emails_def select_employee_by_email_def find_one_def
        find_None_iff image_iff)

lemma employee_exists_iff: "employee_exists db i \<longleftrightarrow> i \<in> set (employee_ids db)"
  by (simp add: employee_exists_def get_by_id_None_iff)

subsection \<open>Employees stay unique\<close>

lemma create_employee_unique:
  "unique_employees db \<Longrightarrow> unique_employees (snd (create_employee db now e))"
  unfolding create_employee_def
  by (cases db)
     (auto simp: get_by_id_None_iff get_by_email_Some_None_iff unique_employees_def
        employee_ids_def employee_emails_def insert_employee_def select_employee_by_id_def
        Let_def o_def split: option.splits sum.splits if_splits)

lemma set_row_id [simp]: "er_id (set_row u r) = er_id r"
  by (simp add: set_row_def)

lemma set_doc_id [simp]: "ed_id (set_doc u d) = ed_id d"
  by (simp add: set_doc_def)

lemma distinct_map_Some [simp]:
  "distinct (map (\<lambda>x. Some (f x)) xs) \<longleftrightarrow> distinct (map f xs)"
  by (induction xs) auto

lemma map_cond_key:
  "(\<And>x. k (g x) = k x) \<Longrightarrow> map k (map (\<lambda>r. if P r then g r else r) xs) = map k xs"
  by (induction xs) auto

lemma update_employees_unique:
  assumes "update_employees q u i = Inr q'"
    and "distinct (map er_id (t_employees q))" and "distinct (map er_email (t_employees q))"
  shows "distinct (map er_id (t_employees q')) \<and> distinct (map er_email (t_employees q'))"
proof -
  let ?rows = "map (\<lambda>r. if er_id r = i then set_row u r else r) (t_employees q)"
  from assms(1) have q': "q' = q\<lparr>t_employees := ?rows\<rparr>" and d: "distinct (map er_email ?rows)"
    using assms(3) by (auto simp: update_employees_def Let_def split: if_splits)
  have "map er_id ?rows = map er_id (t_employees q)"
    by (rule map_cond_key) simp
  with assms(2) have "distinct (map er_id ?rows)" by (simp only:)
  moreover have "t_employees q' = ?rows" unfolding q' by simp
  ultimately show ?thesis using d by (simp only:)
qed


lemma update_employee_unique:
  assumes "unique_employees db"
  shows "unique_employees (snd (update_employee db i u))"
proof (cases db)
  case (Sqlite q)
  with assms update_employees_unique[of q u i] show ?thesis
    by (auto simp: update_employee_def unique_employees_def employee_ids_def
          employee_emails_def o_def split: option.splits sum.splits if_splits)
next
  case (Mongodb m)
  let ?xs = "m_employees m"
  let ?ys = "update_one (\<lambda>d. ed_id d = i) (set_doc u) ?xs"
  from assms Mongodb have did: "distinct (map ed_id ?xs)" and dem: "distinct (map ed_email ?xs)"
    by (simp_all add: unique_employees_def employee_ids_def employee_emails_def o_def)
  have ids: "map ed_id ?ys = map ed_id ?xs"
    unfolding update_one_def by (rule update_first_map) simp
  have ems: "distinct (map ed_email ?ys)" if nt: "\<not> email_taken db i u"
    unfolding update_one_def
  proof (rule update_first_distinct[OF dem])
    fix x y assume x: "x \<in> set ?xs" and y: "y \<in> set ?xs" and xi: "ed_id x = i"
      and e: "ed_email y = ed_email (set_doc u x)"
    show "y = x"
    proof (cases "eu_email u")
      case None
      with e have "ed_email y = ed_email x" by (simp add: set_doc_def)
      with dem x y show ?thesis by (meson distinct_map inj_onD)
    next
      case (Some v)
      with e have yv: "ed_email y = v" by (simp add: set_doc_def)
      from find_by_key_unique[OF dem y] yv
      have "find (\<lambda>d. ed_email d = v) ?xs = Some y" by simp
      with nt Some Mongodb have "ed_id y = i"
        by (simp add: email_taken_def get_by_email_def find_one_def convert_objectid_to_str_def)
      with xi did x y show ?thesis by (metis distinct_map inj_onD)
    qed
  qed
  from Mongodb did dem ids ems show ?thesis
    by (auto simp: update_employee_def unique_employees_def employee_ids_def
          employee_emails_def o_def Let_def split: option.splits sum.splits if_splits)
qed

lemma delete_employee_unique:
  "unique_employees db \<Longrightarrow> unique_employees (snd (delete_employee db i))"
  by (cases db)
     (auto simp: delete_employee_def unique_employees_def employee_ids_def employee_emails_def
        delete_one_def delete_from_employees_def Let_def o_def distinct_map_filter
        delete_first_distinct split: prod.splits if_splits)

subsection \<open>Each service leaves the other's records alone\<close>

lemma create_attendance_employees:
  "employee_ids (snd (create_attendance db now a)) = employee_ids db \<and>
   employee_emails (snd (create_attendance db now a)) = employee_emails db"
  by (cases db)
     (auto simp: create_attendance_def employee_ids_def employee_emails_def
        insert_attendance_def Let_def split: option.splits sum.splits if_splits prod.splits)

lemma update_attendance_employees:
  "employee_ids (snd (update_attendance db i u)) = employee_ids db \<and>
   employee_emails (snd (update_attendance db i u)) = employee_emails db"
  by (cases db)
     (auto simp: update_attendance_def employee_ids_def employee_emails_def
        update_attendance_status_def Let_def split: option.splits sum.splits if_splits prod.splits)

lemma delete_attendance_employees:
  "employee_ids (snd (delete_attendance db i)) = employee_ids db \<and>
   employee_emails (snd (delete_attendance db i)) = employee_emails db"
  by (cases db)
     (auto simp: delete_attendance_def employee_ids_def employee_emails_def
        delete_from_attendance_def Let_def split: option.splits sum.splits if_splits prod.splits)

lemma create_employee_attendance:
  "attendance_keys (snd (create_employee db now e)) = attendance_keys db"
  by (cases db)
     (auto simp: create_employee_def attendance_keys_def insert_employee_def Let_def
        split: option.splits sum.splits if_splits)

lemma update_employee_attendance:
  "attendance_keys (snd (update_employee db i u)) = attendance_keys db"
  by (cases db)
     (auto simp: update_employee_def attendance_keys_def update_employees_def Let_def
        split: option.splits sum.splits if_splits)

lemma delete_employee_attendance:
  "attendance_keys (snd (delete_employee db i)) = attendance_keys db"
  by (cases db)
     (auto simp: delete_employee_def attendance_keys_def delete_from_employees_def
        get_connection_def sqlite3_connect_def delete_one_def Let_def
        split: option.splits sum.splits if_splits prod.splits)

subsection \<open>Attendance keys stay distinct\<close>

lemma create_attendance_keys:
  "distinct (attendance_keys db) \<Longrightarrow> distinct (attendance_keys (snd (create_attendance db now a)))"
  by (cases db)
     (auto simp: create_attendance_def attendance_keys_def insert_attendance_def
        select_attendance_by_key_def find_one_def find_None_iff image_iff Let_def
        split: option.splits sum.splits if_splits prod.splits)

lemma update_attendance_status_keys:
  "map (\<lambda>a. (ar_employee_id a, ar_date a)) (t_attendance (snd (update_attendance_status q s i))) =
   map (\<lambda>a. (ar_employee_id a, ar_date a)) (t_attendance q)"
proof -
  have "map (\<lambda>a. (ar_employee_id a, ar_date a))
          (map (\<lambda>a. if ar_id a = i then a\<lparr>ar_status := s\<rparr> else a) (t_attendance q)) =
        map (\<lambda>a. (ar_employee_id a, ar_date a)) (t_attendance q)"
    by (rule map_cond_key) simp
  then show ?thesis by (simp add: update_attendance_status_def del: map_map)
qed

lemma update_attendance_keys:
  "attendance_keys (snd (update_attendance db i u)) = attendance_keys db"
proof (cases db)
  case (Sqlite q)
  show ?thesis
  proof (cases "fits_int64 i")
    case False
    with Sqlite show ?thesis by (simp add: update_attendance_def)
  next
    case True
    with Sqlite update_attendance_status_keys[of q "au_status u" i] show ?thesis
      by (auto simp: update_attendance_def attendance_keys_def
            split: prod.splits option.splits)
  qed
next
  case (Mongodb m)
  then show ?thesis
    by (auto simp: update_attendance_def attendance_keys_def update_one_def update_first_map
          Let_def split: option.splits)
qed

lemma delete_attendance_keys:
  "distinct (attendance_keys db) \<Longrightarrow> distinct (attendance_keys (snd (delete_attendance db i)))"
  by (cases db)
     (auto simp: delete_attendance_def attendance_keys_def delete_from_attendance_def
        delete_one_def delete_first_distinct distinct_map_filter Let_def
        split: option.splits sum.splits if_splits prod.splits)

lemma execute_invariant:
  assumes "unique_employees db \<and> distinct (attendance_keys db)"
  shows "unique_employees (execute db r) \<and> distinct (attendance_keys (execute db r))"
proof (cases r)
  case (CreateEmployee now e)
  with assms show ?thesis by (simp add: create_employee_unique create_employee_attendance)
next
  case (UpdateEmployee i u)
  with assms show ?thesis by (simp add: update_employee_unique update_employee_attendance)
next
  case (DeleteEmployee i)
  with assms show ?thesis by (simp add: delete_employee_unique delete_employee_attendance)
next
  case (CreateAttendance now a)
  with assms show ?thesis
    by (simp add: create_attendance_keys unique_employees_def create_attendance_employees)
next
  case (UpdateAttendance i u)
  with assms show ?thesis
    by (simp add: update_attendance_keys unique_employees_def update_attendance_employees)
next
  case (DeleteAttendance i)
  with assms show ?thesis
    by (simp add: delete_attendance_keys unique_employees_def delete_attendance_employees)
qed

lemma reachable_invariant:
  "reachable db \<Longrightarrow> unique_employees db \<and> distinct (attendance_keys db)"
proof (induction rule: reachable.induct)
  case reachable_sqlite
  show ?case
    by (simp add: init_sqlite_def unique_employees_def employee_ids_def employee_emails_def
          attendance_keys_def)
next
  case reachable_mongodb
  show ?case
    by (simp add: init_mongodb_def unique_employees_def employee_ids_def employee_emails_def
          attendance_keys_def)
next
  case (reachable_execute db r)
  from reachable_execute.IH show ?case by (rule execute_invariant)
qed

lemma reachable_run: "reachable db \<Longrightarrow> reachable (run db rs)"
  unfolding run_def by (induction rs arbitrary: db) (auto intro: reachable.intros)

subsection \<open>Responses\<close>

lemma doc_to_response_Inr:
  "doc_to_response d =
     Inr \<lparr>resp_id = d_id d,
          resp_name = (case d_name d of None \<Rightarrow> ''Unknown'' | Some n \<Rightarrow> n),
          resp_email = (case d_email d of None \<Rightarrow> ''unknown@example.com'' | Some e \<Rightarrow> e),
          resp_department = (case d_department d of None \<Rightarrow> ''Unassigned'' | Some x \<Rightarrow> x),
          resp_created_at = d_created_at d\<rparr>"
  by (simp add: doc_to_response_def EmployeeResponse_init_def)

lemma response_of_row_Inr:
  "response_of_dict (dict_of_row r) =
     Inr \<lparr>resp_id = er_id r, resp_name = er_name r, resp_email = er_email r,
          resp_department = er_department r, resp_created_at = er_created_at r\<rparr>"
  by (simp add: response_of_dict_def dict_of_row_def EmployeeResponse_init_def)

lemma is_Duplicate_raise [simp]:
  "is_Duplicate (raise_duplicate r f)" "\<not> is_Duplicate (raise_not_found r f)"
  "is_NotFound (raise_not_found r f)" "\<not> is_NotFound (raise_duplicate r f)"
  by (simp_all add: raise_duplicate_def raise_not_found_def)

lemma find_append_new:
  "\<forall>x\<in>set xs. \<not> P x \<Longrightarrow> P y \<Longrightarrow> find P (xs @ [y]) = Some y"
  by (induction xs) auto

subsection \<open>Creating an employee\<close>

lemma create_employee_duplicate:
  assumes "ec_id e \<in> set (employee_ids db) \<or> Some (ec_email e) \<in> set (map snd (employee_emails db))"
  shows "fails_with is_Duplicate (fst (create_employee db now e)) \<and>
         snd (create_employee db now e) = db"
  using assms
  by (auto simp: create_employee_def fails_with_def get_by_id_None_iff get_by_email_Some_None_iff)

lemma create_employee_created:
  assumes "ec_id e \<notin> set (employee_ids db)"
    and "Some (ec_email e) \<notin> set (map snd (employee_emails db))"
  shows "fst (create_employee db now e) =
           Inr \<lparr>resp_id = ec_id e, resp_name = ec_name e, resp_email = ec_email e,
                resp_department = ec_department e,
                resp_created_at = (if is_mongodb db then now else CURRENT_TIMESTAMP now)\<rparr> \<and>
         get_employee (snd (create_employee db now e)) (ec_id e) =
           Inr \<lparr>resp_id = ec_id e, resp_name = ec_name e, resp_email = ec_email e,
                resp_department = ec_department e,
                resp_created_at =
                  (if is_mongodb db then bson_date now else CURRENT_TIMESTAMP now)\<rparr> \<and>
         employee_ids (snd (create_employee db now e)) = employee_ids db @ [ec_id e] \<and>
         employee_emails (snd (create_employee db now e)) =
           employee_emails db @ [(ec_id e, Some (ec_email e))]"
proof (cases db)
  case (Sqlite q)
  with assms have a: "\<forall>r\<in>set (t_employees q). \<not> er_id r = ec_id e"
    and b: "ec_email e \<notin> er_email ` set (t_employees q)"
    by (auto simp: employee_ids_def employee_emails_def image_iff)
  from a have f: "find (\<lambda>r. er_id r = ec_id e) (t_employees q @
       [\<lparr>er_id = ec_id e, er_name = ec_name e, er_email = ec_email e,
         er_department = ec_department e, er_created_at = CURRENT_TIMESTAMP now\<rparr>]) =
       Some \<lparr>er_id = ec_id e, er_name = ec_name e, er_email = ec_email e,
         er_department = ec_department e, er_created_at = CURRENT_TIMESTAMP now\<rparr>"
    by (intro find_append_new) simp_all
  from assms Sqlite a b f show ?thesis
    by (auto simp: create_employee_def get_by_id_None_iff get_by_email_Some_None_iff
          insert_employee_def select_employee_by_id_def response_of_row_Inr get_employee_def
          get_by_id_def employee_ids_def employee_emails_def image_iff find_None_iff)
next
  case (Mongodb m)
  with assms have a: "\<forall>d\<in>set (m_employees m). \<not> ed_id d = ec_id e"
    by (auto simp: employee_ids_def image_iff)
  let ?doc = "\<lparr>ed_oid = m_next_oid m, ed_id = ec_id e, ed_name = Some (ec_name e),
     ed_email = Some (ec_email e), ed_department = Some (ec_department e),
     ed_created_at = bson_date now\<rparr>"
  from a have f: "find (\<lambda>d. ed_id d = ec_id e) (m_employees m @ [?doc]) = Some ?doc"
    by (intro find_append_new) simp_all
  from assms Mongodb a f show ?thesis
    by (auto simp: create_employee_def get_by_id_None_iff get_by_email_Some_None_iff
          doc_to_response_Inr get_employee_def get_by_id_def find_one_def Let_def
          convert_objectid_to_str_def employee_ids_def employee_emails_def find_None_iff image_iff)
qed


subsection \<open>Updating an employee\<close>

lemma email_of_another_iff:
  "email_of_another db i v \<longleftrightarrow> (\<exists>j. j \<noteq> i \<and> (j, v) \<in> set (employee_emails db))"
  by (auto simp: email_of_another_def list_ex_iff)

lemma email_taken_iff:
  assumes "unique_employees db" and "eu_email u = Some v"
  shows "email_taken db i u \<longleftrightarrow> email_of_another db i v"
proof (cases db)
  case (Sqlite q)
  show ?thesis
  proof (cases v)
    case None
    with Sqlite assms(2) show ?thesis
      by (auto simp: email_taken_def get_by_email_def select_employee_by_email_def
            email_of_another_iff employee_emails_def)
  next
    case (Some e)
    from assms(1) Sqlite have dem: "distinct (map er_email (t_employees q))"
      by (simp add: unique_employees_def employee_emails_def o_def)
    show ?thesis
    proof
      assume "email_taken db i u"
      with Sqlite assms(2) Some obtain r where
        "find (\<lambda>r. er_email r = e) (t_employees q) = Some r" "er_id r \<noteq> i"
        by (auto simp: email_taken_def get_by_email_def select_employee_by_email_def
              dict_of_row_def split: option.splits)
      then have "r \<in> set (t_employees q)" "er_email r = e" "er_id r \<noteq> i"
        by (auto simp: find_Some_iff)
      with Sqlite Some show "email_of_another db i v"
        by (force simp: email_of_another_iff employee_emails_def)
    next
      assume "email_of_another db i v"
      with Sqlite Some obtain r where r: "r \<in> set (t_employees q)" "er_email r = e" "er_id r \<noteq> i"
        by (auto simp: email_of_another_iff employee_emails_def)
      from find_by_key_unique[OF dem r(1)] r(2)
      have "find (\<lambda>x. er_email x = e) (t_employees q) = Some r" by simp
      with Sqlite assms(2) Some r(3) show "email_taken db i u"
        by (simp add: email_taken_def get_by_email_def select_employee_by_email_def
              dict_of_row_def)
    qed
  qed
next
  case (Mongodb m)
  from assms(1) Mongodb have dem: "distinct (map ed_email (m_employees m))"
    by (simp add: unique_employees_def employee_emails_def o_def)
  show ?thesis
  proof
    assume "email_taken db i u"
    with Mongodb assms(2) obtain d where
      "find (\<lambda>d. ed_email d = v) (m_employees m) = Some d" "ed_id d \<noteq> i"
      by (auto simp: email_taken_def get_by_email_def find_one_def
            convert_objectid_to_str_def split: option.splits)
    then have "d \<in> set (m_employees m)" "ed_email d = v" "ed_id d \<noteq> i"
      by (auto simp: find_Some_iff)
    with Mongodb show "email_of_another db i v"
      by (force simp: email_of_another_iff employee_emails_def)
  next
    assume "email_of_another db i v"
    with Mongodb obtain d where d: "d \<in> set (m_employees m)" "ed_email d = v" "ed_id d \<noteq> i"
      by (auto simp: email_of_another_iff employee_emails_def)
    from find_by_key_unique[OF dem d(1)] d(2)
    have "find (\<lambda>x. ed_email x = v) (m_employees m) = Some d" by simp
    with Mongodb assms(2) d(3) show "email_taken db i u"
      by (simp add: email_taken_def get_by_email_def find_one_def convert_objectid_to_str_def)
  qed
qed

lemma update_employee_not_found:
  "i \<notin> set (employee_ids db) \<Longrightarrow>
   update_employee db i u = (Inl (raise_not_found ''Employee'' i), db)"
  by (simp add: update_employee_def get_by_id_None_iff)

lemma fails_with_simps [simp]:
  "fails_with kind (Inl err) = kind err" "fails_with kind (Inr x) = False"
  by (simp_all add: fails_with_def)

lemma pydantic_str_error: "pydantic_str v = Inl err \<Longrightarrow> err = ValidationError"
  by (cases v) simp_all

lemma EmployeeResponse_init_error:
  "EmployeeResponse_init a b c d t = Inl err \<Longrightarrow> err = ValidationError"
  by (auto simp: EmployeeResponse_init_def split: sum.splits dest: pydantic_str_error)

lemma response_of_dict_error: "response_of_dict d = Inl err \<Longrightarrow> err = ValidationError"
  by (auto simp: response_of_dict_def dest: EmployeeResponse_init_error)

lemma update_employees_error: "update_employees q u i = Inl err \<Longrightarrow> err = IntegrityError"
  by (auto simp: update_employees_def Let_def split: if_splits)

lemma update_employee_duplicate_iff:
  assumes "i \<in> set (employee_ids db)"
  shows "fails_with is_Duplicate (fst (update_employee db i u)) \<longleftrightarrow> email_taken db i u"
proof (cases "email_taken db i u")
  case True
  with assms show ?thesis by (simp add: update_employee_def get_by_id_None_iff)
next
  case False
  have "\<not> fails_with is_Duplicate (fst (update_employee db i u))"
  proof (cases db)
    case (Sqlite q)
    with False assms show ?thesis
      by (auto simp: update_employee_def get_by_id_None_iff fails_with_def
            split: option.splits sum.splits
            dest!: response_of_dict_error update_employees_error)
  next
    case (Mongodb m)
    with False assms show ?thesis
      by (auto simp: update_employee_def get_by_id_None_iff doc_to_response_Inr Let_def
            split: option.splits)
  qed
  with False show ?thesis by simp
qed


lemma find_map_cond_same:
  "(\<And>x. k (g x) = k x) \<Longrightarrow>
   find (\<lambda>r. k r = i) (map (\<lambda>r. if k r = i then g r else r) xs) =
   map_option g (find (\<lambda>r. k r = i) xs)"
  by (induction xs) auto

lemma find_map_cond_other:
  "(\<And>x. k (g x) = k x) \<Longrightarrow> j \<noteq> i \<Longrightarrow>
   find (\<lambda>r. k r = j) (map (\<lambda>r. if k r = i then g r else r) xs) = find (\<lambda>r. k r = j) xs"
  by (induction xs) auto

lemma update_employee_store:
  "(case db of
      Sqlite q \<Rightarrow>
        snd (update_employee db i u) = db \<or>
        snd (update_employee db i u) =
          Sqlite (q\<lparr>t_employees :=
                     map (\<lambda>r. if er_id r = i then set_row u r else r) (t_employees q)\<rparr>)
    | Mongodb m \<Rightarrow>
        snd (update_employee db i u) = db \<or>
        snd (update_employee db i u) =
          Mongodb (m\<lparr>m_employees :=
                      update_first (\<lambda>d. ed_id d = i) (set_doc u) (m_employees m)\<rparr>))"
  by (cases db)
     (auto simp: update_employee_def update_employees_def update_one_def Let_def
        split: option.splits sum.splits if_splits)

lemma set_row_frame:
  "er_created_at (set_row u r) = er_created_at r"
  "eu_name u = None \<Longrightarrow> er_name (set_row u r) = er_name r"
  "eu_email u = None \<Longrightarrow> er_email (set_row u r) = er_email r"
  "eu_department u = None \<Longrightarrow> er_department (set_row u r) = er_department r"
  by (simp_all add: set_row_def)

lemma set_doc_frame:
  "ed_created_at (set_doc u d) = ed_created_at d"
  "ed_oid (set_doc u d) = ed_oid d"
  "eu_name u = None \<Longrightarrow> ed_name (set_doc u d) = ed_name d"
  "eu_email u = None \<Longrightarrow> ed_email (set_doc u d) = ed_email d"
  "eu_department u = None \<Longrightarrow> ed_department (set_doc u d) = ed_department d"
  by (simp_all add: set_doc_def)


subsection \<open>Creating an attendance record\<close>

lemma attendance_key_present_iff:
  "(case db of
      Mongodb m \<Rightarrow> find_one (\<lambda>d. ad_employee_id d = e \<and> ad_date d = dt) (m_attendance m) \<noteq> None
    | Sqlite q \<Rightarrow> select_attendance_by_key q e dt \<noteq> None) \<longleftrightarrow>
   (e, dt) \<in> set (attendance_keys db)"
  by (cases db)
     (auto simp: attendance_keys_def find_one_def select_attendance_by_key_def find_None_iff
        image_iff)

lemma create_attendance_not_found:
  "ac_employee_id a \<notin> set (employee_ids db) \<Longrightarrow>
   create_attendance db now a = (Inl (raise_not_found ''Employee'' (ac_employee_id a)), db)"
  by (simp add: create_attendance_def employee_exists_iff)

lemma create_attendance_duplicate:
  assumes "ac_employee_id a \<in> set (employee_ids db)"
    and "(ac_employee_id a, ac_date a) \<in> set (attendance_keys db)"
  shows "create_attendance db now a = (Inl (raise_duplicate ''Attendance record'' ''date''), db)"
  using assms attendance_key_present_iff[where db = db and e = "ac_employee_id a" and dt = "ac_date a"]
  by (cases db) (simp_all add: create_attendance_def employee_exists_iff)

lemma find_append_last: "P y \<Longrightarrow> find P (xs @ [y]) \<noteq> None"
  by (induction xs) auto

lemma AttendanceResponse_init_int [simp]:
  "AttendanceResponse_init (PInt i) e d s = Inl ValidationError"
  by (simp add: AttendanceResponse_init_def)

lemma AttendanceResponse_init_str [simp]:
  "AttendanceResponse_init (PStr i) (PStr e) (PStr d) (PStr s) =
     Inr \<lparr>aresp_id = i, aresp_employee_id = e, aresp_date = d, aresp_status = s\<rparr>"
  by (simp add: AttendanceResponse_init_def)

lemma create_attendance_sqlite:
  assumes "ac_employee_id a \<in> set (employee_ids (Sqlite q))"
    and "(ac_employee_id a, ac_date a) \<notin> set (attendance_keys (Sqlite q))"
  shows "create_attendance (Sqlite q) now a =
           (Inl ValidationError,
            Sqlite (q\<lparr>t_attendance := t_attendance q @
                        [\<lparr>ar_id = next_rowid q, ar_employee_id = ac_employee_id a,
                          ar_date = ac_date a, ar_status = ac_status a\<rparr>],
                      t_attendance_seq := next_rowid q\<rparr>))"
proof -
  let ?row = "\<lparr>ar_id = next_rowid q, ar_employee_id = ac_employee_id a,
                ar_date = ac_date a, ar_status = ac_status a\<rparr>"
  have "find (\<lambda>r. ar_id r = next_rowid q) (t_attendance q @ [?row]) \<noteq> None"
    by (rule find_append_last) simp
  then obtain row where "find (\<lambda>r. ar_id r = next_rowid q) (t_attendance q @ [?row]) = Some row"
    by blast
  with assms attendance_key_present_iff[where db = "Sqlite q" and e = "ac_employee_id a" and dt = "ac_date a"]
  show ?thesis
    by (simp add: create_attendance_def employee_exists_iff insert_attendance_def
          get_connection_def sqlite3_connect_def select_attendance_by_id_def Let_def
          attendance_keys_def)
qed

lemma create_attendance_mongodb:
  assumes "ac_employee_id a \<in> set (employee_ids (Mongodb m))"
    and "(ac_employee_id a, ac_date a) \<notin> set (attendance_keys (Mongodb m))"
  shows "create_attendance (Mongodb m) now a =
           (Inr \<lparr>aresp_id = str_ObjectId (m_next_oid m), aresp_employee_id = ac_employee_id a,
                 aresp_date = ac_date a, aresp_status = ac_status a\<rparr>,
            Mongodb (m\<lparr>m_attendance := m_attendance m @
                         [\<lparr>ad_oid = m_next_oid m, ad_employee_id = ac_employee_id a,
                           ad_date = ac_date a, ad_status = ac_status a,
                           ad_created_at = bson_date now\<rparr>],
                       m_next_oid := m_next_oid m + 1\<rparr>))"
  using assms attendance_key_present_iff[where db = "Mongodb m" and e = "ac_employee_id a" and dt = "ac_date a"]
  by (simp add: create_attendance_def employee_exists_iff Let_def)

lemma create_attendance_statuses:
  assumes "ac_employee_id a \<in> set (employee_ids db)"
    and "(ac_employee_id a, ac_date a) \<notin> set (attendance_keys db)"
  shows "attendance_statuses (snd (create_attendance db now a)) (ac_employee_id a) =
           attendance_statuses db (ac_employee_id a) @ [ac_status a]"
proof (cases db)
  case (Sqlite q)
  with assms show ?thesis
    by (simp add: create_attendance_sqlite attendance_statuses_def)
next
  case (Mongodb m)
  with assms show ?thesis
    by (simp add: create_attendance_mongodb attendance_statuses_def)
qed

lemma create_attendance_status_of_response:
  "fst (create_attendance db now a) = Inr resp \<Longrightarrow> aresp_status resp = ac_status a"
proof (cases db)
  case (Sqlite q)
  assume r: "fst (create_attendance db now a) = Inr resp"
  show ?thesis
  proof (cases "ac_employee_id a \<in> set (employee_ids db)")
    case False
    with r show ?thesis by (simp add: create_attendance_not_found)
  next
    case True
    then show ?thesis
    proof (cases "(ac_employee_id a, ac_date a) \<in> set (attendance_keys db)")
      case True
      with \<open>ac_employee_id a \<in> set (employee_ids db)\<close> r show ?thesis
        by (simp add: create_attendance_duplicate)
    next
      case False
      with True r Sqlite show ?thesis by (simp add: create_attendance_sqlite)
    qed
  qed
next
  case (Mongodb m)
  assume r: "fst (create_attendance db now a) = Inr resp"
  show ?thesis
  proof (cases "ac_employee_id a \<in> set (employee_ids db)")
    case False
    with r show ?thesis by (simp add: create_attendance_not_found)
  next
    case True
    then show ?thesis
    proof (cases "(ac_employee_id a, ac_date a) \<in> set (attendance_keys db)")
      case True
      with \<open>ac_employee_id a \<in> set (employee_ids db)\<close> r show ?thesis
        by (simp add: create_attendance_duplicate)
    next
      case False
      with True r Mongodb show ?thesis by (auto simp: create_attendance_mongodb)
    qed
  qed
qed

subsection \<open>Summary\<close>

lemma count_list_map_filter:
  "count_list (map f (filter P xs)) s = length (filter (\<lambda>x. P x \<and> f x = s) xs)"
  by (induction xs) auto

lemma get_employee_Inr:
  assumes "i \<in> set (employee_ids db)"
  shows "\<exists>employee. get_employee db i = Inr employee"
proof -
  from assms have "get_by_id db i \<noteq> None" by (simp add: get_by_id_None_iff)
  then obtain r where "get_by_id db i = Some r" by blast
  then show ?thesis
    by (cases db)
       (auto simp: get_employee_def doc_to_response_Inr get_by_id_def response_of_row_Inr)
qed


subsection \<open>Listing employees\<close>

lemma collect_Inr: "collect (map (\<lambda>x. Inr (f x)) xs) = Inr (map f xs)"
  by (induction xs) auto

lemma sorted_rev_uminus: "sorted (map uminus xs) \<Longrightarrow> sorted (rev (xs :: rat list))"
  by (simp add: sorted_wrt_rev sorted_map)

lemma get_employees_sqlite_newest_first:
  "\<exists>rs. get_employees (Sqlite q) = Inr rs \<and> sorted (rev (map resp_created_at rs)) \<and>
        length rs = length (t_employees q)"
proof -
  let ?f = "\<lambda>r. \<lparr>resp_id = er_id r, resp_name = er_name r, resp_email = er_email r,
                 resp_department = er_department r, resp_created_at = er_created_at r\<rparr>"
  let ?rows = "sort_key (\<lambda>r. - er_created_at r) (t_employees q)"
  have a: "get_employees (Sqlite q) = Inr (map ?f ?rows)"
    by (simp add: get_employees_def select_employees_ordered_def response_of_row_Inr collect_Inr)
  have b: "map resp_created_at (map ?f ?rows) = map er_created_at ?rows"
    by (simp add: o_def)
  have "sorted (map (\<lambda>r. - er_created_at r) ?rows)"
    by (rule sorted_sort_key)
  then have "sorted (map uminus (map er_created_at ?rows))"
    by (simp add: o_def)
  then have c: "sorted (rev (map er_created_at ?rows))"
    by (rule sorted_rev_uminus)
  show ?thesis
  proof (intro exI conjI)
    show "get_employees (Sqlite q) = Inr (map ?f ?rows)" by (rule a)
    show "sorted (rev (map resp_created_at (map ?f ?rows)))" unfolding b by (rule c)
    show "length (map ?f ?rows) = length (t_employees q)" by simp
  qed
qed

subsection \<open>Validation\<close>

lemma nullable_lang: "nullable r \<longleftrightarrow> [] \<in> lang r"
  by (induction r) auto

lemma deriv_lang: "cs \<in> lang (deriv c r) \<longleftrightarrow> c # cs \<in> lang r"
proof (induction r arbitrary: cs)
  case (Seq r s)
  then show ?case
    by (auto simp: nullable_lang Cons_eq_append_conv)
qed auto

lemma full_match_lang: "full_match r s \<longleftrightarrow> s \<in> lang r"
  by (induction s arbitrary: r) (simp_all add: nullable_lang deriv_lang)

lemma lang_literal: "lang (literal w) = {w}"
  by (induction w) auto

lemma status_pattern_iff:
  "full_match status_pattern s \<longleftrightarrow> s = ''Present'' \<or> s = ''Absent''"
  by (auto simp: full_match_lang status_pattern_def lang_literal)


section \<open>Deleting an employee in the relational store\<close>

text \<open>
  Claim C1.  The round trip of the specification in the relational backend: create employee
  \<open>E001\<close>, create two attendance rows for it, delete the employee.  The delete succeeds and
  removes the employee row, and both attendance rows of \<open>E001\<close> are still in the table:
  the connection that \<open>get_connection\<close> opens never turns foreign keys on, so the
  \<open>ON DELETE CASCADE\<close> of the schema does not act.
\<close>

theorem delete_employee_sqlite_keeps_attendance:
  "delete_employee
     (run init_sqlite
        [CreateEmployee 1 employee_E001,
         CreateAttendance 2 (attendance_day ''2024-01-01'' ''Present''),
         CreateAttendance 3 (attendance_day ''2024-01-02'' ''Absent'')])
     ''E001'' =
   (Inr (),
    Sqlite \<lparr>t_employees = [],
            t_attendance =
              [\<lparr>ar_id = 1, ar_employee_id = ''E001'', ar_date = ''2024-01-01'',
                ar_status = ''Present''\<rparr>,
               \<lparr>ar_id = 2, ar_employee_id = ''E001'', ar_date = ''2024-01-02'',
                ar_status = ''Absent''\<rparr>],
            t_attendance_seq = 2\<rparr>)"
  by code_simp

section \<open>Creating an employee\<close>

text \<open>
  Claim C6.  In both backends \<open>create_employee\<close> fails with Duplicate (409) and leaves the
  store as it is when an employee with the same id or the same email is present.  Otherwise
  it returns the full record: the id, name, email and department of the request and a
  \<open>created_at\<close> read from the server's clock, which is \<open>datetime.utcnow()\<close> in the
  document store and \<open>CURRENT_TIMESTAMP\<close> in the relational store.  The record is stored
  with those fields (\<open>get_employee\<close> returns them) and with \<open>created_at\<close> as the store
  keeps it: the document store keeps the milliseconds of the time that was returned, the
  relational store the time that was returned.  A later create with the same id or the
  same email fails with Duplicate: an id or email is created at most once.
\<close>

theorem create_employee_duplicate_or_created:
  "(ec_id e \<in> set (employee_ids db) \<or> Some (ec_email e) \<in> set (map snd (employee_emails db)) \<longrightarrow>
      fails_with is_Duplicate (fst (create_employee db now e)) \<and>
      snd (create_employee db now e) = db) \<and>
   (ec_id e \<notin> set (employee_ids db) \<and> Some (ec_email e) \<notin> set (map snd (employee_emails db)) \<longrightarrow>
      fst (create_employee db now e) =
        Inr \<lparr>resp_id = ec_id e, resp_name = ec_name e, resp_email = ec_email e,
             resp_department = ec_department e,
             resp_created_at = (if is_mongodb db then now else CURRENT_TIMESTAMP now)\<rparr> \<and>
      get_employee (snd (create_employee db now e)) (ec_id e) =
        Inr \<lparr>resp_id = ec_id e, resp_name = ec_name e, resp_email = ec_email e,
             resp_department = ec_department e,
             resp_created_at =
               (if is_mongodb db then bson_date now else CURRENT_TIMESTAMP now)\<rparr> \<and>
      (ec_id e' = ec_id e \<or> ec_email e' = ec_email e \<longrightarrow>
         fails_with is_Duplicate (fst (create_employee (snd (create_employee db now e)) now' e'))))"
proof (intro conjI impI)
  assume "ec_id e \<in> set (employee_ids db) \<or> Some (ec_email e) \<in> set (map snd (employee_emails db))"
  then show "fails_with is_Duplicate (fst (create_employee db now e))"
    and "snd (create_employee db now e) = db"
    using create_employee_duplicate by blast+
next
  assume h: "ec_id e \<notin> set (employee_ids db) \<and> Some (ec_email e) \<notin> set (map snd (employee_emails db))"
  note c = create_employee_created[of e db now]
  from h c show "fst (create_employee db now e) =
        Inr \<lparr>resp_id = ec_id e, resp_name = ec_name e, resp_email = ec_email e,
             resp_department = ec_department e,
             resp_created_at = (if is_mongodb db then now else CURRENT_TIMESTAMP now)\<rparr>"
    by blast
  from h c show "get_employee (snd (create_employee db now e)) (ec_id e) =
        Inr \<lparr>resp_id = ec_id e, resp_name = ec_name e, resp_email = ec_email e,
             resp_department = ec_department e,
             resp_created_at =
               (if is_mongodb db then bson_date now else CURRENT_TIMESTAMP now)\<rparr>"
    by blast
  assume "ec_id e' = ec_id e \<or> ec_email e' = ec_email e"
  with h c have "ec_id e' \<in> set (employee_ids (snd (create_employee db now e))) \<or>
     Some (ec_email e') \<in> set (map snd (employee_emails (snd (create_employee db now e))))"
    by auto
  then show "fails_with is_Duplicate (fst (create_employee (snd (create_employee db now e)) now' e'))"
    using create_employee_duplicate by blast
qed

theorem create_employee_duplicate_or_created_witness:
  "(ec_id employee_E001 \<notin> set (employee_ids init_sqlite) \<and>
    Some (ec_email employee_E001) \<notin> set (map snd (employee_emails init_sqlite))) \<and>
   fst (create_employee init_sqlite 7 employee_E001) =
     Inr \<lparr>resp_id = ''E001'', resp_name = ''Ann'', resp_email = ''a@x.com'',
          resp_department = ''Ops'', resp_created_at = 7\<rparr> \<and>
   get_employee (snd (create_employee init_sqlite 7 employee_E001)) ''E001'' =
     Inr \<lparr>resp_id = ''E001'', resp_name = ''Ann'', resp_email = ''a@x.com'',
          resp_department = ''Ops'', resp_created_at = 7\<rparr> \<and>
   fails_with is_Duplicate
     (fst (create_employee (snd (create_employee init_sqlite 7 employee_E001)) 8
        (employee_E002\<lparr>ec_email := ''a@x.com''\<rparr>))) \<and>
   (ec_id employee_E001 \<notin> set (employee_ids init_mongodb) \<and>
    Some (ec_email employee_E001) \<notin> set (map snd (employee_emails init_mongodb))) \<and>
   fst (create_employee init_mongodb (10015 / 10000) employee_E001) =
     Inr \<lparr>resp_id = ''E001'', resp_name = ''Ann'', resp_email = ''a@x.com'',
          resp_department = ''Ops'', resp_created_at = 10015 / 10000\<rparr> \<and>
   get_employee (snd (create_employee init_mongodb (10015 / 10000) employee_E001)) ''E001'' =
     Inr \<lparr>resp_id = ''E001'', resp_name = ''Ann'', resp_email = ''a@x.com'',
          resp_department = ''Ops'', resp_created_at = 1001 / 1000\<rparr> \<and>
   ec_id employee_E001 \<in> set (employee_ids (run init_mongodb [CreateEmployee 1 employee_E001])) \<and>
   fails_with is_Duplicate
     (fst (create_employee (run init_mongodb [CreateEmployee 1 employee_E001]) 2 employee_E001)) \<and>
   snd (create_employee (run init_mongodb [CreateEmployee 1 employee_E001]) 2 employee_E001) =
     run init_mongodb [CreateEmployee 1 employee_E001]"
proof -
  have fresh: "ec_id employee_E001 \<notin> set (employee_ids init_sqlite) \<and>
      Some (ec_email employee_E001) \<notin> set (map snd (employee_emails init_sqlite))"
    by code_simp
  have fresh': "ec_id employee_E001 \<notin> set (employee_ids init_mongodb) \<and>
      Some (ec_email employee_E001) \<notin> set (map snd (employee_emails init_mongodb))"
    by code_simp
  have same: "ec_id (employee_E002\<lparr>ec_email := ''a@x.com''\<rparr>) = ec_id employee_E001 \<or>
      ec_email (employee_E002\<lparr>ec_email := ''a@x.com''\<rparr>) = ec_email employee_E001"
    by code_simp
  have present:
    "ec_id employee_E001 \<in> set (employee_ids (run init_mongodb [CreateEmployee 1 employee_E001]))"
    by code_simp
  have fields: "ec_id employee_E001 = ''E001''" "ec_name employee_E001 = ''Ann''"
    "ec_email employee_E001 = ''a@x.com''" "ec_department employee_E001 = ''Ops''"
    by (simp_all add: employee_E001_def)
  have backend: "\<not> is_mongodb init_sqlite" "is_mongodb init_mongodb"
    by (simp_all add: init_sqlite_def init_mongodb_def)
  have clock: "CURRENT_TIMESTAMP 7 = 7" "bson_date (10015 / 10000) = 1001 / 1000"
    by code_simp+
  from create_employee_duplicate_or_created
         [of employee_E001 init_sqlite 7 "employee_E002\<lparr>ec_email := ''a@x.com''\<rparr>" 8]
       fresh same
  have a: "fst (create_employee init_sqlite 7 employee_E001) =
       Inr \<lparr>resp_id = ''E001'', resp_name = ''Ann'', resp_email = ''a@x.com'',
            resp_department = ''Ops'', resp_created_at = 7\<rparr> \<and>
     get_employee (snd (create_employee init_sqlite 7 employee_E001)) ''E001'' =
       Inr \<lparr>resp_id = ''E001'', resp_name = ''Ann'', resp_email = ''a@x.com'',
            resp_department = ''Ops'', resp_created_at = 7\<rparr> \<and>
     fails_with is_Duplicate
       (fst (create_employee (snd (create_employee init_sqlite 7 employee_E001)) 8
          (employee_E002\<lparr>ec_email := ''a@x.com''\<rparr>)))"
    unfolding fields using backend(1) clock(1) by (simp only: if_False) blast
  from create_employee_duplicate_or_created
         [of employee_E001 init_mongodb "10015 / 10000"] fresh'
  have a': "fst (create_employee init_mongodb (10015 / 10000) employee_E001) =
       Inr \<lparr>resp_id = ''E001'', resp_name = ''Ann'', resp_email = ''a@x.com'',
            resp_department = ''Ops'', resp_created_at = 10015 / 10000\<rparr> \<and>
     get_employee (snd (create_employee init_mongodb (10015 / 10000) employee_E001)) ''E001'' =
       Inr \<lparr>resp_id = ''E001'', resp_name = ''Ann'', resp_email = ''a@x.com'',
            resp_department = ''Ops'', resp_created_at = 1001 / 1000\<rparr>"
    unfolding fields using backend(2) clock(2) by (simp only: if_True) blast
  from create_employee_duplicate_or_created
         [of employee_E001 "run init_mongodb [CreateEmployee 1 employee_E001]" 2] present
  have b: "fails_with is_Duplicate
       (fst (create_employee (run init_mongodb [CreateEmployee 1 employee_E001]) 2 employee_E001)) \<and>
     snd (create_employee (run init_mongodb [CreateEmployee 1 employee_E001]) 2 employee_E001) =
       run init_mongodb [CreateEmployee 1 employee_E001]"
    by blast
  from fresh a fresh' a' present b show ?thesis by blast
qed


section \<open>Updating an employee\<close>

text \<open>
  Claim C7.  In every reachable state of either backend, \<open>update_employee\<close> fails with
  NotFound (404) when no employee has the id; when \<open>email\<close> is among the supplied fields
  and the employee exists, it fails with Duplicate (409) exactly when another employee, one
  with a different id, has that email; and updating an employee's email to the value it
  already has is not a Duplicate.
\<close>

theorem update_employee_not_found_or_duplicate:
  assumes "reachable db"
  shows "(i \<notin> set (employee_ids db) \<longrightarrow>
            fst (update_employee db i u) = Inl (raise_not_found ''Employee'' i)) \<and>
         (i \<in> set (employee_ids db) \<and> eu_email u = Some v \<longrightarrow>
            (fails_with is_Duplicate (fst (update_employee db i u)) \<longleftrightarrow>
             email_of_another db i v)) \<and>
         (eu_email u = Some v \<and> (i, v) \<in> set (employee_emails db) \<longrightarrow>
            \<not> fails_with is_Duplicate (fst (update_employee db i u)))"
proof -
  from assms have uniq: "unique_employees db" by (simp add: reachable_invariant)
  have own: "\<not> email_of_another db i v" if "(i, v) \<in> set (employee_emails db)"
  proof
    assume "email_of_another db i v"
    then obtain j where j: "j \<noteq> i" "(j, v) \<in> set (employee_emails db)"
      by (auto simp: email_of_another_iff)
    from uniq have "distinct (map snd (employee_emails db))" by (simp add: unique_employees_def)
    with that j(2) have "(j, v) = (i, v)"
      by (metis distinct_map inj_onD snd_conv)
    with j(1) show False by simp
  qed
  have ids: "i \<in> set (employee_ids db)" if "(i, v) \<in> set (employee_emails db)"
    using that by (cases db) (auto simp: employee_emails_def employee_ids_def)
  show ?thesis
    using uniq own ids
    by (auto simp: update_employee_not_found update_employee_duplicate_iff email_taken_iff)
qed

theorem update_employee_not_found_or_duplicate_witness:
  "reachable (two_employees init_mongodb) \<and>
   ''NOPE'' \<notin> set (employee_ids (two_employees init_mongodb)) \<and>
   fst (update_employee (two_employees init_mongodb) ''NOPE'' (update_email ''a@x.com'')) =
     Inl (raise_not_found ''Employee'' ''NOPE'') \<and>
   (''E002'' \<in> set (employee_ids (two_employees init_mongodb)) \<and>
    eu_email (update_email ''a@x.com'') = Some (Some ''a@x.com'')) \<and>
   email_of_another (two_employees init_mongodb) ''E002'' (Some ''a@x.com'') \<and>
   fails_with is_Duplicate
     (fst (update_employee (two_employees init_mongodb) ''E002'' (update_email ''a@x.com''))) \<and>
   (eu_email (update_email ''b@x.com'') = Some (Some ''b@x.com'') \<and>
    (''E002'', Some ''b@x.com'') \<in> set (employee_emails (two_employees init_mongodb))) \<and>
   \<not> fails_with is_Duplicate
       (fst (update_employee (two_employees init_mongodb) ''E002'' (update_email ''b@x.com'')))"
proof -
  have r: "reachable (two_employees init_mongodb)"
    unfolding two_employees_def by (intro reachable_run reachable_mongodb)
  have h1: "''NOPE'' \<notin> set (employee_ids (two_employees init_mongodb))" by code_simp
  have h2: "''E002'' \<in> set (employee_ids (two_employees init_mongodb)) \<and>
      eu_email (update_email ''a@x.com'') = Some (Some ''a@x.com'')" by code_simp
  have h3: "email_of_another (two_employees init_mongodb) ''E002'' (Some ''a@x.com'')"
    by code_simp
  have h4: "eu_email (update_email ''b@x.com'') = Some (Some ''b@x.com'') \<and>
      (''E002'', Some ''b@x.com'') \<in> set (employee_emails (two_employees init_mongodb))"
    by code_simp
  from update_employee_not_found_or_duplicate
         [OF r, of "''NOPE''" "update_email ''a@x.com''" "Some ''a@x.com''"] h1
  have c1: "fst (update_employee (two_employees init_mongodb) ''NOPE'' (update_email ''a@x.com'')) =
      Inl (raise_not_found ''Employee'' ''NOPE'')" by blast
  from update_employee_not_found_or_duplicate
         [OF r, of "''E002''" "update_email ''a@x.com''" "Some ''a@x.com''"] h2 h3
  have c2: "fails_with is_Duplicate
      (fst (update_employee (two_employees init_mongodb) ''E002'' (update_email ''a@x.com'')))"
    by blast
  from update_employee_not_found_or_duplicate
         [OF r, of "''E002''" "update_email ''b@x.com''" "Some ''b@x.com''"] h4
  have c3: "\<not> fails_with is_Duplicate
      (fst (update_employee (two_employees init_mongodb) ''E002'' (update_email ''b@x.com'')))"
    by blast
  from r h1 c1 h2 h3 c2 h4 c3 show ?thesis by blast
qed


text \<open>
  Claim C8.  For every existing employee and every partial update, in both backends and
  whatever the outcome of the call: the stored record of that employee keeps its \<open>id\<close>
  and \<open>created_at\<close> and every field that the update does not supply, the records of all
  other employees are as before, and so are the attendance records.  An update that
  supplies \<open>department\<close> only leaves \<open>name\<close> and \<open>email\<close> as they were.
\<close>

theorem update_employee_frame:
  assumes "get_by_id db i = Some r"
  shows "(\<exists>r'. get_by_id (snd (update_employee db i u)) i = Some r' \<and>
            d_id r' = d_id r \<and> d_created_at r' = d_created_at r \<and>
            (eu_name u = None \<longrightarrow> d_name r' = d_name r) \<and>
            (eu_email u = None \<longrightarrow> d_email r' = d_email r) \<and>
            (eu_department u = None \<longrightarrow> d_department r' = d_department r)) \<and>
         (j \<noteq> i \<longrightarrow> get_by_id (snd (update_employee db i u)) j = get_by_id db j) \<and>
         attendance_keys (snd (update_employee db i u)) = attendance_keys db"
proof (cases db)
  case (Sqlite q)
  let ?q' = "q\<lparr>t_employees := map (\<lambda>r. if er_id r = i then set_row u r else r) (t_employees q)\<rparr>"
  from assms Sqlite obtain row where row: "find (\<lambda>r. er_id r = i) (t_employees q) = Some row"
    and r: "r = dict_of_row row"
    by (auto simp: get_by_id_def select_employee_by_id_def)
  have same: "get_by_id (Sqlite ?q') i = Some (dict_of_row (set_row u row))"
    by (simp add: get_by_id_def select_employee_by_id_def find_map_cond_same row)
  have other: "get_by_id (Sqlite ?q') j = get_by_id db j" if "j \<noteq> i"
    using that Sqlite by (simp add: get_by_id_def select_employee_by_id_def find_map_cond_other)
  from update_employee_store[of db i u] Sqlite
  consider "snd (update_employee db i u) = db" | "snd (update_employee db i u) = Sqlite ?q'"
    by auto
  then show ?thesis
  proof cases
    case 1
    with assms show ?thesis by simp
  next
    case 2
    with same other r show ?thesis
      by (simp add: update_employee_attendance[of db i u, unfolded 2] dict_of_row_def
            set_row_frame)
  qed
next
  case (Mongodb m)
  let ?m' = "m\<lparr>m_employees := update_first (\<lambda>d. ed_id d = i) (set_doc u) (m_employees m)\<rparr>"
  from assms Mongodb obtain doc where doc: "find (\<lambda>d. ed_id d = i) (m_employees m) = Some doc"
    and r: "r = convert_objectid_to_str doc"
    by (auto simp: get_by_id_def find_one_def)
  have same: "get_by_id (Mongodb ?m') i = Some (convert_objectid_to_str (set_doc u doc))"
    by (simp add: get_by_id_def find_one_def update_first_find_same doc)
  have other: "get_by_id (Mongodb ?m') j = get_by_id db j" if "j \<noteq> i"
  proof -
    have "find (\<lambda>d. ed_id d = j) (update_first (\<lambda>d. ed_id d = i) (set_doc u) (m_employees m)) =
          find (\<lambda>d. ed_id d = j) (m_employees m)"
      by (rule update_first_find_other) (use that in auto)
    with Mongodb show ?thesis by (simp add: get_by_id_def find_one_def)
  qed
  from update_employee_store[of db i u] Mongodb
  consider "snd (update_employee db i u) = db" | "snd (update_employee db i u) = Mongodb ?m'"
    by auto
  then show ?thesis
  proof cases
    case 1
    with assms show ?thesis by simp
  next
    case 2
    with same other r show ?thesis
      by (simp add: update_employee_attendance[of db i u, unfolded 2]
            convert_objectid_to_str_def set_doc_frame)
  qed
qed


theorem update_employee_frame_witness:
  "get_by_id (two_employees init_sqlite) ''E001'' =
     Some \<lparr>d_oid = None, d_id = ''E001'', d_name = Some ''Ann'', d_email = Some ''a@x.com'',
           d_department = Some ''Ops'', d_created_at = 1\<rparr> \<and>
   (\<exists>r'. get_by_id (snd (update_employee (two_employees init_sqlite) ''E001''
                           (update_department ''Sales''))) ''E001'' = Some r' \<and>
         d_id r' = ''E001'' \<and> d_created_at r' = 1 \<and> d_name r' = Some ''Ann'' \<and>
         d_email r' = Some ''a@x.com'') \<and>
   get_by_id (snd (update_employee (two_employees init_sqlite) ''E001''
                     (update_department ''Sales''))) ''E002'' =
     get_by_id (two_employees init_sqlite) ''E002''"
proof -
  have h: "get_by_id (two_employees init_sqlite) ''E001'' =
     Some \<lparr>d_oid = None, d_id = ''E001'', d_name = Some ''Ann'', d_email = Some ''a@x.com'',
           d_department = Some ''Ops'', d_created_at = 1\<rparr>"
    by code_simp
  have u: "eu_name (update_department ''Sales'') = None"
    "eu_email (update_department ''Sales'') = None"
    by (simp_all add: update_department_def)
  have n: "''E002'' \<noteq> ''E001''" by simp
  from update_employee_frame[OF h, of "update_department ''Sales''" "''E002''"] u n h
  show ?thesis by auto
qed


text \<open>
  Claim C10.  For every existing employee, an update that supplies no field at all
  succeeds, leaves the store exactly as it was, and returns the employee's current record,
  the one \<open>get_employee\<close> returns.
\<close>

theorem update_employee_no_fields:
  assumes "i \<in> set (employee_ids db)"
  shows "\<exists>resp. update_employee db i \<lparr>eu_name = None, eu_email = None, eu_department = None\<rparr> =
                   (Inr resp, db) \<and>
                 get_employee db i = Inr resp"
proof (cases db)
  case (Sqlite q)
  from assms have "get_by_id db i \<noteq> None" by (simp add: get_by_id_None_iff)
  with Sqlite obtain row where "select_employee_by_id q i = Some row"
    by (auto simp: get_by_id_def)
  with Sqlite show ?thesis
    by (simp add: update_employee_def email_taken_def update_data_nonempty_def get_by_id_def
          get_employee_def response_of_row_Inr)
next
  case (Mongodb m)
  from assms have "get_by_id db i \<noteq> None" by (simp add: get_by_id_None_iff)
  with Mongodb obtain doc where "find_one (\<lambda>d. ed_id d = i) (m_employees m) = Some doc"
    by (auto simp: get_by_id_def)
  with Mongodb show ?thesis
    by (simp add: update_employee_def email_taken_def update_data_nonempty_def get_by_id_def
          get_employee_def doc_to_response_Inr)
qed

theorem update_employee_no_fields_witness:
  "''E001'' \<in> set (employee_ids (two_employees init_mongodb)) \<and>
   update_employee (two_employees init_mongodb) ''E001''
     \<lparr>eu_name = None, eu_email = None, eu_department = None\<rparr> =
     (Inr \<lparr>resp_id = ''E001'', resp_name = ''Ann'', resp_email = ''a@x.com'',
           resp_department = ''Ops'', resp_created_at = 1\<rparr>,
      two_employees init_mongodb)"
proof -
  have h: "''E001'' \<in> set (employee_ids (two_employees init_mongodb))" by code_simp
  have g: "get_employee (two_employees init_mongodb) ''E001'' =
     Inr \<lparr>resp_id = ''E001'', resp_name = ''Ann'', resp_email = ''a@x.com'',
          resp_department = ''Ops'', resp_created_at = 1\<rparr>"
    by code_simp
  from update_employee_no_fields[OF h] g h show ?thesis by auto
qed


section \<open>Attendance summary\<close>

text \<open>
  Claim C9.  In both backends \<open>get_employee_attendance_summary\<close> fails with NotFound
  (404) when the employee is absent.  For an existing employee it returns the employee id,
  the name that \<open>get_employee\<close> of the Employee Service returns, and as totals the number
  of that employee's attendance records whose status is \<open>Present\<close> and the number whose
  status is \<open>Absent\<close>.  Every attendance record created for the employee adds its status
  to those the store holds for that employee, so after three \<open>Present\<close> and two \<open>Absent\<close>
  records the totals are 3 and 2.
\<close>

theorem employee_attendance_summary_counts:
  "(i \<notin> set (employee_ids db) \<longrightarrow>
      get_employee_attendance_summary db i = Inl (raise_not_found ''Employee'' i)) \<and>
   (i \<in> set (employee_ids db) \<longrightarrow>
      (\<exists>employee. get_employee db i = Inr employee \<and>
         get_employee_attendance_summary db i =
           Inr \<lparr>eas_employee_id = i, eas_name = resp_name employee,
                eas_total_present = count_list (attendance_statuses db i) ''Present'',
                eas_total_absent = count_list (attendance_statuses db i) ''Absent''\<rparr>)) \<and>
   (i \<in> set (employee_ids db) \<and> (i, date) \<notin> set (attendance_keys db) \<longrightarrow>
      attendance_statuses
        (snd (create_attendance db now
                \<lparr>ac_employee_id = i, ac_date = date, ac_status = status\<rparr>)) i =
      attendance_statuses db i @ [status])"
proof (intro conjI impI)
  assume "i \<notin> set (employee_ids db)"
  then have "get_by_id db i = None" by (simp add: get_by_id_None_iff)
  then show "get_employee_attendance_summary db i = Inl (raise_not_found ''Employee'' i)"
    by (simp add: get_employee_attendance_summary_def get_employee_def)
next
  assume "i \<in> set (employee_ids db)"
  then obtain employee where e: "get_employee db i = Inr employee"
    using get_employee_Inr by blast
  then have "get_employee_attendance_summary db i =
           Inr \<lparr>eas_employee_id = i, eas_name = resp_name employee,
                eas_total_present = count_list (attendance_statuses db i) ''Present'',
                eas_total_absent = count_list (attendance_statuses db i) ''Absent''\<rparr>"
    by (cases db)
       (simp_all add: get_employee_attendance_summary_def attendance_statuses_def
          count_list_map_filter count_documents_def count_attendance_def)
  with e show "\<exists>employee. get_employee db i = Inr employee \<and>
         get_employee_attendance_summary db i =
           Inr \<lparr>eas_employee_id = i, eas_name = resp_name employee,
                eas_total_present = count_list (attendance_statuses db i) ''Present'',
                eas_total_absent = count_list (attendance_statuses db i) ''Absent''\<rparr>"
    by blast
next
  assume "i \<in> set (employee_ids db) \<and> (i, date) \<notin> set (attendance_keys db)"
  then show "attendance_statuses
        (snd (create_attendance db now
                \<lparr>ac_employee_id = i, ac_date = date, ac_status = status\<rparr>)) i =
      attendance_statuses db i @ [status]"
    using create_attendance_statuses
            [of "\<lparr>ac_employee_id = i, ac_date = date, ac_status = status\<rparr>" db now]
    by simp
qed

theorem employee_attendance_summary_counts_witness:
  "''E001'' \<in> set (employee_ids (five_days init_sqlite)) \<and>
   get_employee_attendance_summary (five_days init_sqlite) ''E001'' =
     Inr \<lparr>eas_employee_id = ''E001'', eas_name = ''Ann'',
          eas_total_present = 3, eas_total_absent = 2\<rparr> \<and>
   ''NOPE'' \<notin> set (employee_ids (five_days init_sqlite)) \<and>
   get_employee_attendance_summary (five_days init_sqlite) ''NOPE'' =
     Inl (raise_not_found ''Employee'' ''NOPE'') \<and>
   (''E001'', ''2024-01-06'') \<notin> set (attendance_keys (five_days init_sqlite)) \<and>
   attendance_statuses
     (snd (create_attendance (five_days init_sqlite) 7
             \<lparr>ac_employee_id = ''E001'', ac_date = ''2024-01-06'', ac_status = ''Absent''\<rparr>))
     ''E001'' =
   attendance_statuses (five_days init_sqlite) ''E001'' @ [''Absent'']"
proof -
  have h1: "''E001'' \<in> set (employee_ids (five_days init_sqlite))" by code_simp
  have h2: "''NOPE'' \<notin> set (employee_ids (five_days init_sqlite))" by code_simp
  have h3: "(''E001'', ''2024-01-06'') \<notin> set (attendance_keys (five_days init_sqlite))"
    by code_simp
  have g: "get_employee (five_days init_sqlite) ''E001'' =
      Inr \<lparr>resp_id = ''E001'', resp_name = ''Ann'', resp_email = ''a@x.com'',
           resp_department = ''Ops'', resp_created_at = 1\<rparr>"
    by code_simp
  have c: "count_list (attendance_statuses (five_days init_sqlite) ''E001'') ''Present'' = 3"
    "count_list (attendance_statuses (five_days init_sqlite) ''E001'') ''Absent'' = 2"
    by code_simp+
  from employee_attendance_summary_counts
         [of "''E001''" "five_days init_sqlite" "''2024-01-06''" 7 "''Absent''"] h1 h3 g c
  have a: "get_employee_attendance_summary (five_days init_sqlite) ''E001'' =
      Inr \<lparr>eas_employee_id = ''E001'', eas_name = ''Ann'',
           eas_total_present = 3, eas_total_absent = 2\<rparr>"
    and b: "attendance_statuses
     (snd (create_attendance (five_days init_sqlite) 7
             \<lparr>ac_employee_id = ''E001'', ac_date = ''2024-01-06'', ac_status = ''Absent''\<rparr>))
     ''E001'' =
     attendance_statuses (five_days init_sqlite) ''E001'' @ [''Absent'']"
    by auto
  from employee_attendance_summary_counts[of "''NOPE''" "five_days init_sqlite"] h2
  have d: "get_employee_attendance_summary (five_days init_sqlite) ''NOPE'' =
     Inl (raise_not_found ''Employee'' ''NOPE'')" by blast
  from h1 a h2 d h3 b show ?thesis by blast
qed


section \<open>One attendance record per employee and date\<close>

text \<open>
  Claim C4, as stated, fails in its second half.  In the document store, create employee
  \<open>E001\<close> and five attendance records, then delete the employee: the records remain.  A
  create for \<open>E001\<close> and a date that the store holds is then refused with NotFound (404),
  not with Duplicate, because \<open>create_attendance\<close> looks for the employee first.
\<close>

theorem create_attendance_deleted_employee_not_duplicate:
  "reachable (execute (five_days init_mongodb) (DeleteEmployee ''E001'')) \<and>
   (''E001'', ''2024-01-03'')
     \<in> set (attendance_keys (execute (five_days init_mongodb) (DeleteEmployee ''E001''))) \<and>
   fst (create_attendance (execute (five_days init_mongodb) (DeleteEmployee ''E001'')) 9
          \<lparr>ac_employee_id = ''E001'', ac_date = ''2024-01-03'', ac_status = ''Absent''\<rparr>) =
     Inl (HTTPException 404 ''Employee not found: E001'') \<and>
   \<not> is_Duplicate (HTTPException 404 ''Employee not found: E001'')"
proof -
  have "reachable (execute (five_days init_mongodb) (DeleteEmployee ''E001''))"
    unfolding five_days_def by (intro reachable_execute reachable_run reachable_mongodb)
  moreover have "(''E001'', ''2024-01-03'')
     \<in> set (attendance_keys (execute (five_days init_mongodb) (DeleteEmployee ''E001'')))"
    by code_simp
  moreover have
    "fst (create_attendance (execute (five_days init_mongodb) (DeleteEmployee ''E001'')) 9
          \<lparr>ac_employee_id = ''E001'', ac_date = ''2024-01-03'', ac_status = ''Absent''\<rparr>) =
     Inl (HTTPException 404 ''Employee not found: E001'')"
    by code_simp
  ultimately show ?thesis by simp
qed

text \<open>
  Claim C4, amended.  In every state reachable through the service operations, in either
  backend, no two attendance records have the same \<open>(employee_id, date)\<close> pair.  Creating
  a record for a pair that the store already holds leaves the store unchanged; it fails
  with Duplicate (409) while the employee exists, and with NotFound (404) when the
  employee does not exist any more.
\<close>

theorem attendance_unique_per_employee_and_date:
  assumes "reachable db"
  shows "distinct (attendance_keys db) \<and>
         ((ac_employee_id a, ac_date a) \<in> set (attendance_keys db) \<longrightarrow>
            snd (create_attendance db now a) = db \<and>
            (ac_employee_id a \<in> set (employee_ids db) \<longrightarrow>
               fst (create_attendance db now a) =
                 Inl (raise_duplicate ''Attendance record'' ''date'')) \<and>
            (ac_employee_id a \<notin> set (employee_ids db) \<longrightarrow>
               fst (create_attendance db now a) =
                 Inl (raise_not_found ''Employee'' (ac_employee_id a))))"
proof -
  from assms have "distinct (attendance_keys db)" by (simp add: reachable_invariant)
  moreover have "snd (create_attendance db now a) = db"
    if "(ac_employee_id a, ac_date a) \<in> set (attendance_keys db)"
    using that create_attendance_duplicate[of a db now] create_attendance_not_found[of a db now]
    by (cases "ac_employee_id a \<in> set (employee_ids db)") simp_all
  ultimately show ?thesis
    by (simp add: create_attendance_duplicate create_attendance_not_found)
qed

theorem attendance_unique_per_employee_and_date_witness:
  "reachable (five_days init_mongodb) \<and>
   distinct (attendance_keys (five_days init_mongodb)) \<and>
   (ac_employee_id (attendance_day ''2024-01-03'' ''Absent''),
    ac_date (attendance_day ''2024-01-03'' ''Absent''))
     \<in> set (attendance_keys (five_days init_mongodb)) \<and>
   ac_employee_id (attendance_day ''2024-01-03'' ''Absent'')
     \<in> set (employee_ids (five_days init_mongodb)) \<and>
   create_attendance (five_days init_mongodb) 9 (attendance_day ''2024-01-03'' ''Absent'') =
     (Inl (raise_duplicate ''Attendance record'' ''date''), five_days init_mongodb) \<and>
   reachable (execute (five_days init_sqlite) (DeleteEmployee ''E001'')) \<and>
   (ac_employee_id (attendance_day ''2024-01-03'' ''Absent''),
    ac_date (attendance_day ''2024-01-03'' ''Absent''))
     \<in> set (attendance_keys (execute (five_days init_sqlite) (DeleteEmployee ''E001''))) \<and>
   ac_employee_id (attendance_day ''2024-01-03'' ''Absent'')
     \<notin> set (employee_ids (execute (five_days init_sqlite) (DeleteEmployee ''E001''))) \<and>
   create_attendance (execute (five_days init_sqlite) (DeleteEmployee ''E001'')) 9
       (attendance_day ''2024-01-03'' ''Absent'') =
     (Inl (raise_not_found ''Employee'' ''E001''),
      execute (five_days init_sqlite) (DeleteEmployee ''E001''))"
proof -
  let ?a = "attendance_day ''2024-01-03'' ''Absent''"
  let ?db = "five_days init_mongodb"
  let ?db' = "execute (five_days init_sqlite) (DeleteEmployee ''E001'')"
  have r: "reachable ?db"
    unfolding five_days_def by (intro reachable_run reachable_mongodb)
  have r': "reachable ?db'"
    unfolding five_days_def by (intro reachable_execute reachable_run reachable_sqlite)
  have k: "(ac_employee_id ?a, ac_date ?a) \<in> set (attendance_keys ?db)" by code_simp
  have e: "ac_employee_id ?a \<in> set (employee_ids ?db)" by code_simp
  have k': "(ac_employee_id ?a, ac_date ?a) \<in> set (attendance_keys ?db')" by code_simp
  have e': "ac_employee_id ?a \<notin> set (employee_ids ?db')" by code_simp
  have i: "ac_employee_id ?a = ''E001''" by (simp add: attendance_day_def)
  from attendance_unique_per_employee_and_date[OF r, of ?a 9] k e
  have c: "distinct (attendance_keys ?db)"
    "create_attendance ?db 9 ?a = (Inl (raise_duplicate ''Attendance record'' ''date''), ?db)"
    by (simp_all add: prod_eq_iff)
  from attendance_unique_per_employee_and_date[OF r', of ?a 9] k' e' i
  have c': "create_attendance ?db' 9 ?a = (Inl (raise_not_found ''Employee'' ''E001''), ?db')"
    by (simp add: prod_eq_iff)
  from r c k e r' k' e' c' show ?thesis by blast
qed


section \<open>Creating an attendance record\<close>

text \<open>
  Claim C5.  \<open>create_attendance\<close> fails with NotFound when the employee does not exist,
  whatever the date and status, and with Duplicate when the store holds a record for the
  employee and date (lemmas \<open>create_attendance_not_found\<close> and
  \<open>create_attendance_duplicate\<close>); in the document store it otherwise stores the record
  and returns it with the id the store assigned (\<open>create_attendance_mongodb\<close>).  In the
  relational store it inserts and commits the row, and then raises instead of returning
  it: the row's \<open>id\<close> is an integer and \<open>AttendanceResponse.id\<close> is a \<open>str\<close>
  (\<open>create_attendance_sqlite\<close>).  The theorem runs the call for an existing employee and a
  new date on a relational store.
\<close>

theorem create_attendance_sqlite_raises_after_insert:
  "create_attendance (run init_sqlite [CreateEmployee 1 employee_E001]) 2
     (attendance_day ''2024-01-01'' ''Present'') =
   (Inl ValidationError,
    Sqlite \<lparr>t_employees =
              [\<lparr>er_id = ''E001'', er_name = ''Ann'', er_email = ''a@x.com'',
                er_department = ''Ops'', er_created_at = 1\<rparr>],
            t_attendance =
              [\<lparr>ar_id = 1, ar_employee_id = ''E001'', ar_date = ''2024-01-01'',
                ar_status = ''Present''\<rparr>],
            t_attendance_seq = 1\<rparr>)"
  by code_simp


section \<open>Listing employees\<close>

text \<open>
  Claim C3.  In the relational store \<open>get_employees\<close> returns all employees, newest first
  (\<open>get_employees_sqlite_newest_first\<close>).  In the document store \<open>find_many\<close> is called
  without a sort and with a limit of 1000, so the list follows insertion order: after
  creating \<open>E001\<close> at time 1 and \<open>E002\<close> at time 2, \<open>E001\<close>, the oldest, comes first.
\<close>

theorem get_employees_mongodb_oldest_first:
  "get_employees (two_employees init_mongodb) =
     Inr [\<lparr>resp_id = ''E001'', resp_name = ''Ann'', resp_email = ''a@x.com'',
           resp_department = ''Ops'', resp_created_at = 1\<rparr>,
          \<lparr>resp_id = ''E002'', resp_name = ''Bob'', resp_email = ''b@x.com'',
           resp_department = ''Ops'', resp_created_at = 2\<rparr>]"
proof -
  have "two_employees init_mongodb =
      Mongodb \<lparr>m_employees =
                 [\<lparr>ed_oid = 0, ed_id = ''E001'', ed_name = Some ''Ann'',
                   ed_email = Some ''a@x.com'', ed_department = Some ''Ops'',
                   ed_created_at = 1\<rparr>,
                  \<lparr>ed_oid = 1, ed_id = ''E002'', ed_name = Some ''Bob'',
                   ed_email = Some ''b@x.com'', ed_department = Some ''Ops'',
                   ed_created_at = 2\<rparr>],
               m_attendance = [], m_next_oid = 2\<rparr>"
    by code_simp
  then show ?thesis
    by (simp add: get_employees_def find_many_def doc_to_response_Inr
          convert_objectid_to_str_def)
qed


section \<open>The status of an attendance request\<close>

text \<open>
  Claim C2, as stated, fails: \<open>AttendanceCreate\<close> does not normalize the case of
  \<open>status\<close>.  The request with status \<open>present\<close> for an existing employee is rejected
  with a validation error and the store is unchanged.
\<close>

theorem attendance_status_lowercase_rejected:
  "post_attendance (run init_mongodb [CreateEmployee 1 employee_E001]) 2
     (attendance_day ''2024-01-01'' ''present'') =
   (Inl ValidationError, run init_mongodb [CreateEmployee 1 employee_E001])"
  by code_simp

text \<open>
  Claim C2, amended.  A request whose status is neither \<open>Present\<close> nor \<open>Absent\<close>, spelt
  exactly so, is rejected with a validation error before the Attendance Service is called,
  and the store is unchanged.  A request with one of these two statuses, an employee id of
  4 to 20 characters and a date of the calendar passes validation and is handed on as it
  is.  When the service then stores a record, because the employee exists and has no record
  for the date, the statuses the store holds for that employee are those it held before
  followed by the status of the request, as given; and a record that is returned carries
  the status of the request.
\<close>

theorem attendance_status_exact:
  "(ac_status body \<noteq> ''Present'' \<and> ac_status body \<noteq> ''Absent'' \<longrightarrow>
      post_attendance db now body = (Inl ValidationError, db)) \<and>
   (AttendanceCreate_validate body = Inr a \<longrightarrow>
      a = body \<and> (ac_status body = ''Present'' \<or> ac_status body = ''Absent'')) \<and>
   ((ac_status body = ''Present'' \<or> ac_status body = ''Absent'') \<and>
    4 \<le> length (ac_employee_id body) \<and> length (ac_employee_id body) \<le> 20 \<and>
    full_match date_pattern (ac_date body) \<and> strptime_Ymd (ac_date body) \<longrightarrow>
      AttendanceCreate_validate body = Inr body) \<and>
   (AttendanceCreate_validate body = Inr a \<and>
    ac_employee_id body \<in> set (employee_ids db) \<and>
    (ac_employee_id body, ac_date body) \<notin> set (attendance_keys db) \<longrightarrow>
      attendance_statuses (snd (post_attendance db now body)) (ac_employee_id body) =
        attendance_statuses db (ac_employee_id body) @ [ac_status body]) \<and>
   (fst (post_attendance db now body) = Inr resp \<longrightarrow> aresp_status resp = ac_status body)"
proof (intro conjI impI)
  assume "ac_status body \<noteq> ''Present'' \<and> ac_status body \<noteq> ''Absent''"
  then show "post_attendance db now body = (Inl ValidationError, db)"
    by (simp add: post_attendance_def AttendanceCreate_validate_def status_pattern_iff)
next
  assume v: "AttendanceCreate_validate body = Inr a"
  then show "a = body"
    by (simp add: AttendanceCreate_validate_def split: if_splits)
  from v show "ac_status body = ''Present'' \<or> ac_status body = ''Absent''"
    by (simp add: AttendanceCreate_validate_def status_pattern_iff split: if_splits)
next
  assume "(ac_status body = ''Present'' \<or> ac_status body = ''Absent'') \<and>
    4 \<le> length (ac_employee_id body) \<and> length (ac_employee_id body) \<le> 20 \<and>
    full_match date_pattern (ac_date body) \<and> strptime_Ymd (ac_date body)"
  then show "AttendanceCreate_validate body = Inr body"
    by (simp add: AttendanceCreate_validate_def status_pattern_iff)
next
  assume h: "AttendanceCreate_validate body = Inr a \<and>
    ac_employee_id body \<in> set (employee_ids db) \<and>
    (ac_employee_id body, ac_date body) \<notin> set (attendance_keys db)"
  then have "AttendanceCreate_validate body = Inr body"
    by (simp add: AttendanceCreate_validate_def split: if_splits)
  then have "post_attendance db now body = create_attendance db now body"
    by (simp add: post_attendance_def)
  with h show "attendance_statuses (snd (post_attendance db now body)) (ac_employee_id body) =
        attendance_statuses db (ac_employee_id body) @ [ac_status body]"
    by (simp add: create_attendance_statuses)
next
  assume "fst (post_attendance db now body) = Inr resp"
  then show "aresp_status resp = ac_status body"
    by (auto simp: post_attendance_def AttendanceCreate_validate_def
          create_attendance_status_of_response split: if_splits)
qed

theorem attendance_status_exact_witness:
  "(ac_status (attendance_day ''2024-01-01'' ''Maybe'') \<noteq> ''Present'' \<and>
    ac_status (attendance_day ''2024-01-01'' ''Maybe'') \<noteq> ''Absent'') \<and>
   post_attendance (run init_mongodb [CreateEmployee 1 employee_E001]) 2
     (attendance_day ''2024-01-01'' ''Maybe'') =
     (Inl ValidationError, run init_mongodb [CreateEmployee 1 employee_E001]) \<and>
   ((ac_status (attendance_day ''2024-01-01'' ''Absent'') = ''Present'' \<or>
     ac_status (attendance_day ''2024-01-01'' ''Absent'') = ''Absent'') \<and>
    4 \<le> length (ac_employee_id (attendance_day ''2024-01-01'' ''Absent'')) \<and>
    length (ac_employee_id (attendance_day ''2024-01-01'' ''Absent'')) \<le> 20 \<and>
    full_match date_pattern (ac_date (attendance_day ''2024-01-01'' ''Absent'')) \<and>
    strptime_Ymd (ac_date (attendance_day ''2024-01-01'' ''Absent''))) \<and>
   AttendanceCreate_validate (attendance_day ''2024-01-01'' ''Absent'') =
     Inr (attendance_day ''2024-01-01'' ''Absent'') \<and>
   (ac_employee_id (attendance_day ''2024-01-01'' ''Absent'')
      \<in> set (employee_ids (run init_sqlite [CreateEmployee 1 employee_E001])) \<and>
    (ac_employee_id (attendance_day ''2024-01-01'' ''Absent''),
     ac_date (attendance_day ''2024-01-01'' ''Absent''))
      \<notin> set (attendance_keys (run init_sqlite [CreateEmployee 1 employee_E001]))) \<and>
   attendance_statuses
     (snd (post_attendance (run init_sqlite [CreateEmployee 1 employee_E001]) 2
             (attendance_day ''2024-01-01'' ''Absent'')))
     (ac_employee_id (attendance_day ''2024-01-01'' ''Absent'')) =
     attendance_statuses (run init_sqlite [CreateEmployee 1 employee_E001])
       (ac_employee_id (attendance_day ''2024-01-01'' ''Absent'')) @
     [ac_status (attendance_day ''2024-01-01'' ''Absent'')] \<and>
   attendance_statuses
     (snd (post_attendance (run init_sqlite [CreateEmployee 1 employee_E001]) 2
             (attendance_day ''2024-01-01'' ''Absent''))) ''E001'' = [''Absent''] \<and>
   fst (post_attendance (run init_mongodb [CreateEmployee 1 employee_E001]) 2
          (attendance_day ''2024-01-01'' ''Present'')) =
     Inr \<lparr>aresp_id = ''000000000000000000000001'', aresp_employee_id = ''E001'',
          aresp_date = ''2024-01-01'', aresp_status = ''Present''\<rparr> \<and>
   aresp_status \<lparr>aresp_id = ''000000000000000000000001'', aresp_employee_id = ''E001'',
          aresp_date = ''2024-01-01'', aresp_status = ''Present''\<rparr> =
     ac_status (attendance_day ''2024-01-01'' ''Present'')"
proof -
  let ?db = "run init_mongodb [CreateEmployee 1 employee_E001]"
  let ?dq = "run init_sqlite [CreateEmployee 1 employee_E001]"
  let ?ab = "attendance_day ''2024-01-01'' ''Absent''"
  let ?resp = "\<lparr>aresp_id = ''000000000000000000000001'', aresp_employee_id = ''E001'',
          aresp_date = ''2024-01-01'', aresp_status = ''Present''\<rparr>"
  have h1: "ac_status (attendance_day ''2024-01-01'' ''Maybe'') \<noteq> ''Present'' \<and>
    ac_status (attendance_day ''2024-01-01'' ''Maybe'') \<noteq> ''Absent''"
    by (simp add: attendance_day_def)
  have h2: "(ac_status ?ab = ''Present'' \<or> ac_status ?ab = ''Absent'') \<and>
    4 \<le> length (ac_employee_id ?ab) \<and> length (ac_employee_id ?ab) \<le> 20 \<and>
    full_match date_pattern (ac_date ?ab) \<and> strptime_Ymd (ac_date ?ab)"
    by code_simp
  have h3: "ac_employee_id ?ab \<in> set (employee_ids ?dq) \<and>
    (ac_employee_id ?ab, ac_date ?ab) \<notin> set (attendance_keys ?dq)"
    by code_simp
  have h4: "fst (post_attendance ?db 2 (attendance_day ''2024-01-01'' ''Present'')) = Inr ?resp"
    by code_simp
  have e: "attendance_statuses (snd (post_attendance ?dq 2 ?ab)) ''E001'' = [''Absent'']"
    by code_simp
  from attendance_status_exact[of "attendance_day ''2024-01-01'' ''Maybe''" ?db 2] h1
  have c1: "post_attendance ?db 2 (attendance_day ''2024-01-01'' ''Maybe'') =
      (Inl ValidationError, ?db)" by blast
  from attendance_status_exact[of ?ab ?dq 2 ?ab] h2
  have c2: "AttendanceCreate_validate ?ab = Inr ?ab" by blast
  from attendance_status_exact[of ?ab ?dq 2 ?ab] c2 h3
  have c3: "attendance_statuses (snd (post_attendance ?dq 2 ?ab)) (ac_employee_id ?ab) =
     attendance_statuses ?dq (ac_employee_id ?ab) @ [ac_status ?ab]" by blast
  from attendance_status_exact[of "attendance_day ''2024-01-01'' ''Present''" ?db 2 _ ?resp] h4
  have c4: "aresp_status ?resp = ac_status (attendance_day ''2024-01-01'' ''Present'')"
    by blast
  from h1 c1 h2 c2 h3 c3 e h4 c4 show ?thesis by blast
qed

end
